theory Spec2Isabelle
  imports Main "HOL-Library.Char_ord" "HOL-Library.List_Lexorder" "HOL-Library.Multiset"
begin

section \<open>Python primitives used by the sources\<close>

text \<open>
  Text is modelled as \<open>string\<close> (a list of 8-bit characters, each standing for the
  code point of its number); the topology file is the list of physical lines that
  iterating over the open file yields, numbered from 1. The string primitives below are
  the Python built-ins the sources call, on code points below 256: \<open>str.strip\<close>, \<open>str.split\<close>, \<open>str.lower\<close>, \<open>str.startswith\<close>,
  \<open>in\<close> on strings, \<open>int\<close>, \<open>str\<close> and the format specifications \<open>:>8\<close> and \<open>:10.nf\<close>.
\<close>

datatype py_error = ValueError | StopIteration

definition py_isspace :: "char \<Rightarrow> bool" where
  "py_isspace c =
     (let n = (of_char c :: nat)
      in (9 \<le> n \<and> n \<le> 13) \<or> (28 \<le> n \<and> n \<le> 32) \<or> n = 133 \<or> n = 160)"

definition py_strip :: "string \<Rightarrow> string" where
  "py_strip s = rev (dropWhile py_isspace (rev (dropWhile py_isspace s)))"

definition lower_char :: "char \<Rightarrow> char" where
  "lower_char c =
     (let n = (of_char c :: nat)
      in if (65 \<le> n \<and> n \<le> 90) \<or> (192 \<le> n \<and> n \<le> 222 \<and> n \<noteq> 215) then char_of (n + 32)
         else c)"

definition py_lower :: "string \<Rightarrow> string" where
  "py_lower s = map lower_char s"

text \<open>\<open>split_ws acc s\<close>: the tokens of \<open>s\<close>, where \<open>acc\<close> is the current token, reversed.\<close>

fun split_ws :: "string \<Rightarrow> string \<Rightarrow> string list" where
  "split_ws acc [] = (if acc = [] then [] else [rev acc])"
| "split_ws acc (c # cs) =
     (if py_isspace c then (if acc = [] then split_ws [] cs else rev acc # split_ws [] cs)
      else split_ws (c # acc) cs)"

definition py_split :: "string \<Rightarrow> string list" where
  "py_split s = split_ws [] s"

fun startswith :: "string \<Rightarrow> string \<Rightarrow> bool" where
  "startswith s [] = True"
| "startswith [] (p # ps) = False"
| "startswith (c # cs) (p # ps) = (c = p \<and> startswith cs ps)"

text \<open>\<open>py_in sub s\<close> is Python's \<open>sub in s\<close> on strings.\<close>

fun py_in :: "string \<Rightarrow> string \<Rightarrow> bool" where
  "py_in sub [] = (sub = [])"
| "py_in sub (c # cs) = (startswith (c # cs) sub \<or> py_in sub cs)"

definition digit_val :: "char \<Rightarrow> nat option" where
  "digit_val c = (let n = (of_char c :: nat) in if 48 \<le> n \<and> n \<le> 57 then Some (n - 48) else None)"

text \<open>
  \<open>int(s)\<close> in base 10 on a token without surrounding whitespace: an optional sign, then
  decimal digits, where a single underscore may stand between two digits. Anything else
  raises \<open>ValueError\<close>, which is \<open>None\<close> here. (The interpreter's configurable limit
  on the number of digits of a decimal string is not part of the model.)
\<close>

fun py_digits :: "nat \<Rightarrow> string \<Rightarrow> nat option" where
  "py_digits acc [] = Some acc"
| "py_digits acc [c] = (case digit_val c of None \<Rightarrow> None | Some d \<Rightarrow> Some (10 * acc + d))"
| "py_digits acc (c # c' # cs) =
     (if c = CHR ''_'' then
        (case digit_val c' of None \<Rightarrow> None | Some d \<Rightarrow> py_digits (10 * acc + d) cs)
      else
        (case digit_val c of None \<Rightarrow> None | Some d \<Rightarrow> py_digits (10 * acc + d) (c' # cs)))"

definition py_unsigned :: "string \<Rightarrow> nat option" where
  "py_unsigned s =
     (case s of [] \<Rightarrow> None
      | c # cs \<Rightarrow> (case digit_val c of None \<Rightarrow> None | Some d \<Rightarrow> py_digits d cs))"

definition py_int :: "string \<Rightarrow> int option" where
  "py_int s =
     (case s of
        [] \<Rightarrow> None
      | c # cs \<Rightarrow>
          if c = CHR ''-'' then map_option (\<lambda>n. - int n) (py_unsigned cs)
          else if c = CHR ''+'' then map_option int (py_unsigned cs)
          else map_option int (py_unsigned s))"

fun str_nat :: "nat \<Rightarrow> string" where
  "str_nat n = (if n < 10 then [char_of (48 + n)] else str_nat (n div 10) @ [char_of (48 + n mod 10)])"

definition py_str :: "int \<Rightarrow> string" where
  "py_str i = (if i < 0 then CHR ''-'' # str_nat (nat (- i)) else str_nat (nat i))"

text \<open>The format specification \<open>:>w\<close> (and the padding of \<open>:w.nf\<close>): right-justify with spaces.\<close>

definition rjust :: "nat \<Rightarrow> string \<Rightarrow> string" where
  "rjust w s = replicate (w - length s) CHR '' '' @ s"

text \<open>
  \<open>format_f w p n\<close> is \<open>f"{x:w.pf}"\<close> for a float \<open>x\<close> whose value is the natural number
  \<open>n\<close>; the only floats the sources format are the constants 120.0, 200.0 and 0.0.
\<close>

definition format_f :: "nat \<Rightarrow> nat \<Rightarrow> nat \<Rightarrow> string" where
  "format_f w p n = rjust w (str_nat n @ ''.'' @ replicate p CHR ''0'')"

subsection \<open>Dictionaries\<close>

text \<open>
  A Python \<open>dict\<close> keeps its keys in insertion order, and the sources iterate over
  \<open>items()\<close>; it is an association list with distinct keys. Assigning to a key that is
  present keeps the key's position.
\<close>

fun dict_set :: "'k \<Rightarrow> 'v \<Rightarrow> ('k \<times> 'v) list \<Rightarrow> ('k \<times> 'v) list" where
  "dict_set k v [] = [(k, v)]"
| "dict_set k v ((k', v') # d) = (if k' = k then (k, v) # d else (k', v') # dict_set k v d)"

section \<open>error_finding.py: get_context_from_topology\<close>

definition sections :: "string list" where
  "sections = [''[ atoms ]'', ''[ bonds ]'', ''[ pairs ]'', ''[ angles ]'', ''[ dihedrals ]'']"

record index_state =
  section_lines :: "(string \<times> nat) list"
  section_counts :: "(string \<times> nat) list"

text \<open>\<open>section_counts[section]\<close>; every section is a key from the start.\<close>

definition count_of :: "(string \<times> nat) list \<Rightarrow> string \<Rightarrow> nat" where
  "count_of counts s = (case map_of counts s of None \<Rightarrow> 0 | Some c \<Rightarrow> c)"

text \<open>The body of the inner loop \<open>for section in sections\<close>, at line number \<open>i\<close>.\<close>

definition visit_section :: "nat \<Rightarrow> string \<Rightarrow> index_state \<Rightarrow> string \<Rightarrow> index_state" where
  "visit_section i line st section =
     (if py_lower line = py_lower section then
        let counts' = dict_set section (count_of (section_counts st) section + 1) (section_counts st);
            st' = st\<lparr>section_counts := counts'\<rparr>
        in if section = ''[ dihedrals ]'' then
             (if count_of counts' section = 1 then
                st'\<lparr>section_lines := dict_set ''[ proper dihedrals ]'' i (section_lines st')\<rparr>
              else if count_of counts' section = 2 then
                st'\<lparr>section_lines := dict_set ''[ improper dihedrals ]'' i (section_lines st')\<rparr>
              else st')
           else st'\<lparr>section_lines := dict_set section i (section_lines st')\<rparr>
      else st)"

text \<open>The body of the outer loop \<open>for i, line in enumerate(file, 1)\<close>.\<close>

definition visit_line :: "index_state \<Rightarrow> nat \<times> string \<Rightarrow> index_state" where
  "visit_line st il = (case il of (i, l) \<Rightarrow> foldl (visit_section i (py_strip l)) st sections)"

definition index_init :: index_state where
  "index_init = \<lparr>section_lines = [], section_counts = map (\<lambda>s. (s, 0)) sections\<rparr>"

definition index_run :: "string list \<Rightarrow> index_state" where
  "index_run ls = foldl visit_line index_init (enumerate 1 ls)"

definition get_context_from_topology :: "string list \<Rightarrow> (string \<times> nat) list" where
  "get_context_from_topology ls = section_lines (index_run ls)"

text \<open>The line numbers at which the trimmed line equals the header, ignoring case.\<close>

definition is_header :: "string \<Rightarrow> string \<Rightarrow> bool" where
  "is_header h l = (py_lower (py_strip l) = py_lower h)"

definition occurrences :: "string \<Rightarrow> string list \<Rightarrow> nat list" where
  "occurrences h ls = map fst (filter (\<lambda>il. is_header h (snd il)) (enumerate 1 ls))"

section \<open>error_finding.py: extract_atom_names\<close>

record atom_rec =
  name :: string
  type :: string
  resnr :: string
  residue :: string

type_synonym atom_table = "(int \<times> atom_rec) list"

text \<open>
  The loop that looks for the end of the atoms section; \<open>None\<close> is \<open>float('inf')\<close>.
\<close>

definition atoms_end_step :: "nat \<Rightarrow> nat option \<Rightarrow> string \<times> nat \<Rightarrow> nat option" where
  "atoms_end_step atoms_start atoms_end sl =
     (case sl of (section, line) \<Rightarrow>
        if line > atoms_start \<and> (case atoms_end of None \<Rightarrow> True | Some e \<Rightarrow> line < e)
        then Some line else atoms_end)"

definition find_atoms_end :: "nat \<Rightarrow> (string \<times> nat) list \<Rightarrow> nat option" where
  "find_atoms_end atoms_start sl = foldl (atoms_end_step atoms_start) None sl"

text \<open>
  The part of the loop body that follows \<open>tokens = line.split()\<close>: a line with at least
  five tokens is stored under \<open>int(tokens[0])\<close>, which may raise.
\<close>

definition store_atom :: "string list \<Rightarrow> atom_table \<Rightarrow> py_error + atom_table" where
  "store_atom tokens atom_info =
     (if length tokens \<ge> 5 then
        (case py_int (tokens ! 0) of
           None \<Rightarrow> Inl ValueError
         | Some atom_num \<Rightarrow>
             Inr (dict_set atom_num
                    \<lparr>name = tokens ! 4, type = tokens ! 1, resnr = tokens ! 2, residue = tokens ! 3\<rparr>
                    atom_info))
      else Inr atom_info)"

text \<open>
  The loop \<open>for line in file\<close> after the first \<open>atoms_start\<close> lines have been skipped:
  \<open>line_num\<close> is the number of the line at the head of the remaining lines. An exception
  leaves the loop.
\<close>

fun read_atoms :: "nat option \<Rightarrow> nat \<Rightarrow> string list \<Rightarrow> atom_table \<Rightarrow> py_error + atom_table" where
  "read_atoms atoms_end line_num [] atom_info = Inr atom_info"
| "read_atoms atoms_end line_num (l # ls) atom_info =
     (if (case atoms_end of None \<Rightarrow> False | Some e \<Rightarrow> line_num \<ge> e) then Inr atom_info
      else
        let line = py_strip l in
        if line = [] \<or> startswith line '';'' then read_atoms atoms_end (line_num + 1) ls atom_info
        else
          (case store_atom (py_split line) atom_info of
             Inl e \<Rightarrow> Inl e
           | Inr atom_info' \<Rightarrow> read_atoms atoms_end (line_num + 1) ls atom_info'))"

text \<open>
  The body of the \<open>try\<close> block. Skipping \<open>atoms_start\<close> lines with \<open>next(file)\<close> raises
  \<open>StopIteration\<close> when the file is shorter.
\<close>

definition extract_atom_names_try :: "string list \<Rightarrow> (string \<times> nat) list \<Rightarrow> py_error + atom_table" where
  "extract_atom_names_try ls sl =
     (case map_of sl ''[ atoms ]'' of
        None \<Rightarrow> Inr []
      | Some atoms_start \<Rightarrow>
          let atoms_end = find_atoms_end atoms_start sl in
          if length ls < atoms_start then Inl StopIteration
          else read_atoms atoms_end (atoms_start + 1) (drop atoms_start ls) [])"

text \<open>\<open>except Exception\<close>: any error gives the empty table.\<close>

definition extract_atom_names :: "string list \<Rightarrow> (string \<times> nat) list \<Rightarrow> atom_table" where
  "extract_atom_names ls sl =
     (case extract_atom_names_try ls sl of Inl e \<Rightarrow> [] | Inr atom_info \<Rightarrow> atom_info)"

section \<open>error_finding.py: identify_atoms_from_context\<close>

text \<open>
  An error dictionary. The keys \<open>error_num\<close>, \<open>line_number\<close> and \<open>error_msg\<close> are always
  present (both numbers come from \<open>int\<close> of a match of \<open>\d+\<close>); the other keys are added
  later, \<open>err_section\<close> being the key \<open>'section'\<close>.
\<close>

record error_rec =
  error_num :: nat
  line_number :: nat
  error_msg :: string
  err_section :: "string option"
  atoms :: "int list option"
  atom_names :: "string list option"
  residues :: "string list option"
  atom_types :: "string list option"

text \<open>The inner loop over \<open>sl.items()\<close> that computes \<open>is_last_section\<close>.\<close>

definition is_last_section :: "(string \<times> nat) list \<Rightarrow> nat \<Rightarrow> nat \<Rightarrow> bool" where
  "is_last_section sl error_line start_line =
     (\<not> list_ex (\<lambda>(next_section, next_start_line).
                    next_start_line > start_line \<and> error_line \<ge> next_start_line) sl)"

text \<open>The outer loop, over the items that remain; it stops at the first section it accepts.\<close>

fun find_section :: "(string \<times> nat) list \<Rightarrow> nat \<Rightarrow> (string \<times> nat) list \<Rightarrow> string option" where
  "find_section sl error_line [] = None"
| "find_section sl error_line ((section, start_line) # rest) =
     (if error_line \<ge> start_line \<and> is_last_section sl error_line start_line
      then Some section
      else find_section sl error_line rest)"

text \<open>\<open>[int(tokens[0]), ..., int(tokens[n-1])]\<close>, evaluated from left to right.\<close>

fun parse_ints :: "string list \<Rightarrow> py_error + int list" where
  "parse_ints [] = Inr []"
| "parse_ints (t # ts) =
     (case py_int t of
        None \<Rightarrow> Inl ValueError
      | Some i \<Rightarrow> (case parse_ints ts of Inl e \<Rightarrow> Inl e | Inr is \<Rightarrow> Inr (i # is)))"

definition extract_atoms :: "string \<Rightarrow> string list \<Rightarrow> py_error + int list" where
  "extract_atoms error_section tokens =
     (if error_section = ''[ bonds ]'' then
        (if length tokens \<ge> 2 then parse_ints (take 2 tokens) else Inr [])
      else if error_section = ''[ pairs ]'' then
        (if length tokens \<ge> 2 then parse_ints (take 2 tokens) else Inr [])
      else if error_section = ''[ angles ]'' then
        (if length tokens \<ge> 3 then parse_ints (take 3 tokens) else Inr [])
      else if error_section = ''[ proper dihedrals ]'' \<or> error_section = ''[ improper dihedrals ]'' then
        (if length tokens \<ge> 4 then parse_ints (take 4 tokens) else Inr [])
      else Inr [])"

definition atom_name_of :: "atom_table \<Rightarrow> int \<Rightarrow> string" where
  "atom_name_of atom_info atom =
     (case map_of atom_info atom of Some info \<Rightarrow> name info | None \<Rightarrow> ''Unknown-'' @ py_str atom)"

definition residue_info_of :: "atom_table \<Rightarrow> int \<Rightarrow> string" where
  "residue_info_of atom_info atom =
     (case map_of atom_info atom of Some info \<Rightarrow> residue info @ resnr info | None \<Rightarrow> ''Unknown'')"

definition atom_type_of :: "atom_table \<Rightarrow> int \<Rightarrow> string" where
  "atom_type_of atom_info atom =
     (case map_of atom_info atom of Some info \<Rightarrow> type info | None \<Rightarrow> ''Unknown'')"

text \<open>
  The three lists built under \<open>if atom_info:\<close>; \<open>None\<close> (the default of the parameter) and
  the empty dictionary are both false.
\<close>

definition resolve_atoms :: "atom_table option \<Rightarrow> int list \<Rightarrow> string list \<times> string list \<times> string list" where
  "resolve_atoms atom_info atom_list =
     (case atom_info of
        None \<Rightarrow> ([], [], [])
      | Some ai \<Rightarrow>
          if ai = [] then ([], [], [])
          else (map (atom_name_of ai) atom_list, map (residue_info_of ai) atom_list,
                map (atom_type_of ai) atom_list))"

type_synonym identified = "int list \<times> string list \<times> string list \<times> string list"

text \<open>
  The function returns the four lists and updates the error dictionary in place, so the
  model returns the dictionary too. Every exception inside the \<open>try\<close> block ends in the
  handler, which returns four empty lists.
\<close>

definition identify_atoms_from_context ::
    "error_rec \<Rightarrow> (string \<times> nat) list \<Rightarrow> string list \<Rightarrow> atom_table option \<Rightarrow> error_rec \<times> identified" where
  "identify_atoms_from_context error sl ls atom_info =
     (let error_line = line_number error in
      case find_section sl error_line sl of
        None \<Rightarrow> (error, ([], [], [], []))
      | Some error_section \<Rightarrow>
          let error' = error\<lparr>err_section := Some error_section\<rparr> in
          case map_of (enumerate 1 ls) error_line of
            None \<Rightarrow> (error', ([], [], [], []))
          | Some line \<Rightarrow>
              let error_line_content = py_strip line;
                  tokens = py_split error_line_content
              in case extract_atoms error_section tokens of
                   Inl e \<Rightarrow> (error', ([], [], [], []))
                 | Inr atom_list \<Rightarrow> (error', (atom_list, resolve_atoms atom_info atom_list)))"

section \<open>main.py: the loop over the errors\<close>

definition enrich :: "(string \<times> nat) list \<Rightarrow> string list \<Rightarrow> atom_table \<Rightarrow> error_rec \<Rightarrow> error_rec" where
  "enrich sl ls atom_info error =
     (case identify_atoms_from_context error sl ls (Some atom_info) of
        (error', (atoms_list, atom_names_list, residue_info_list, atom_type_list)) \<Rightarrow>
          error'\<lparr>atoms := Some atoms_list, atom_names := Some atom_names_list,
                 residues := Some residue_info_list, atom_types := Some atom_type_list\<rparr>)"

section \<open>dummies.py\<close>

definition generate_angle_dummy :: "string list \<Rightarrow> string option" where
  "generate_angle_dummy ats =
     (if length ats \<noteq> 3 then None
      else Some (rjust 8 (ats ! 0) @ '' '' @ rjust 8 (ats ! 1) @ '' '' @ rjust 8 (ats ! 2)
                 @ ''     1   '' @ format_f 10 6 120 @ ''   '' @ format_f 10 6 200
                 @ ''   '' @ format_f 10 8 0 @ ''   '' @ format_f 10 2 0 @ '' ;''))"

definition generate_dihedral_dummy :: "string list \<Rightarrow> string option" where
  "generate_dihedral_dummy ats =
     (if length ats \<noteq> 4 then None
      else Some (rjust 8 (ats ! 0) @ '' '' @ rjust 8 (ats ! 1) @ '' '' @ rjust 8 (ats ! 2)
                 @ '' '' @ rjust 8 (ats ! 3) @ [CHR 0x09, CHR 0x09] @ ''9     ''
                 @ format_f 10 6 0 @ ''     '' @ format_f 10 6 0 @ ''     '' @ py_str 1 @ '' ;''))"

record dummy_state =
  angle_dummies :: "string set"
  dihedral_dummies :: "string set"
  processed_errors :: nat
  skipped_no_atom_types :: nat
  skipped_unknown_error :: nat
  skipped_wrong_atom_count :: nat

definition dummy_init :: dummy_state where
  "dummy_init = \<lparr>angle_dummies = {}, dihedral_dummies = {}, processed_errors = 0,
                  skipped_no_atom_types = 0, skipped_unknown_error = 0, skipped_wrong_atom_count = 0\<rparr>"

text \<open>\<open>(section and word in section.lower())\<close>, where \<open>section\<close> is \<open>None\<close> without the key.\<close>

definition section_has :: "string \<Rightarrow> string option \<Rightarrow> bool" where
  "section_has word section =
     (case section of None \<Rightarrow> False | Some s \<Rightarrow> s \<noteq> [] \<and> py_in word (py_lower s))"

definition wrong_atom_count :: "dummy_state \<Rightarrow> dummy_state" where
  "wrong_atom_count st = st\<lparr>skipped_wrong_atom_count := skipped_wrong_atom_count st + 1\<rparr>"

text \<open>The body of the loop \<open>for error in errors\<close>.\<close>

definition process_error :: "dummy_state \<Rightarrow> error_rec \<Rightarrow> dummy_state" where
  "process_error st error =
     (case atom_types error of
        None \<Rightarrow> st\<lparr>skipped_no_atom_types := skipped_no_atom_types st + 1\<rparr>
      | Some ats \<Rightarrow>
          if ats = [] then st\<lparr>skipped_no_atom_types := skipped_no_atom_types st + 1\<rparr>
          else
            let msg = py_lower (error_msg error); section = err_section error in
            if py_in ''no default u-b types'' msg \<or> py_in ''angle type'' msg
               \<or> section_has ''angle'' section then
              (if length ats = 3 then
                 (case generate_angle_dummy ats of
                    None \<Rightarrow> wrong_atom_count st
                  | Some dummy \<Rightarrow>
                      if dummy \<noteq> [] then
                        st\<lparr>angle_dummies := insert dummy (angle_dummies st),
                           processed_errors := processed_errors st + 1\<rparr>
                      else wrong_atom_count st)
               else wrong_atom_count st)
            else if py_in ''no default dihedral type'' msg \<or> py_in ''dihedral type'' msg
               \<or> section_has ''dihedral'' section then
              (if length ats = 4 then
                 (case generate_dihedral_dummy ats of
                    None \<Rightarrow> wrong_atom_count st
                  | Some dummy \<Rightarrow>
                      if dummy \<noteq> [] then
                        st\<lparr>dihedral_dummies := insert dummy (dihedral_dummies st),
                           processed_errors := processed_errors st + 1\<rparr>
                      else wrong_atom_count st)
               else wrong_atom_count st)
            else st\<lparr>skipped_unknown_error := skipped_unknown_error st + 1\<rparr>)"

definition process_errors_loop :: "error_rec list \<Rightarrow> dummy_state" where
  "process_errors_loop errors = foldl process_error dummy_init errors"

record dummies =
  angles :: "string list"
  dihedrals :: "string list"

text \<open>\<open>sorted(list(s))\<close> on a set of strings: ascending in the lexicographic order of the characters.\<close>

definition process_errors_for_dummies :: "error_rec list \<Rightarrow> dummies" where
  "process_errors_for_dummies errors =
     (let st = process_errors_loop errors
      in \<lparr>angles = sorted_list_of_set (angle_dummies st),
          dihedrals = sorted_list_of_set (dihedral_dummies st)\<rparr>)"

section \<open>The span of the atoms section, as the specification words it\<close>

text \<open>The physical lines whose line number is strictly between \<open>a\<close> and \<open>b\<close>.\<close>

definition lines_between :: "string list \<Rightarrow> nat \<Rightarrow> nat \<Rightarrow> string list" where
  "lines_between ls a b = map (\<lambda>i. ls ! (i - 1)) [Suc a..<min b (Suc (length ls))]"

text \<open>
  The exclusive end line: the minimum line number, among the indexed sections, that is
  strictly greater than the start line; without such a section the span runs to the end
  of a file of \<open>n\<close> lines.
\<close>

definition spec_atoms_end :: "nat \<Rightarrow> (string \<times> nat) list \<Rightarrow> nat \<Rightarrow> nat" where
  "spec_atoms_end atoms_start sl n =
     (let later = filter (\<lambda>line. atoms_start < line) (map snd sl)
      in if later = [] then Suc n else Min (set later))"

text \<open>A line that is neither blank nor a comment, after trimming.\<close>

definition is_data_line :: "string \<Rightarrow> bool" where
  "is_data_line l = (let line = py_strip l in line \<noteq> [] \<and> \<not> startswith line '';'')"

text \<open>Storing the given lines one after the other, stopping at the first exception.\<close>

fun store_rows :: "string list \<Rightarrow> atom_table \<Rightarrow> py_error + atom_table" where
  "store_rows [] atom_info = Inr atom_info"
| "store_rows (l # ls) atom_info =
     (case store_atom (py_split (py_strip l)) atom_info of
        Inl e \<Rightarrow> Inl e
      | Inr atom_info' \<Rightarrow> store_rows ls atom_info')"

section \<open>The classification of an error, as the specification words it\<close>

datatype error_kind = AngleKind | DihedralKind | UnrecognizedKind

text \<open>
  The priority list: the lowercased message or the section name says angle; else the
  message or the section name says dihedral; else the error is not recognised. A record
  without a section has no section name to look at.
\<close>

definition spec_classify :: "string \<Rightarrow> string option \<Rightarrow> error_kind" where
  "spec_classify message section_name =
     (let msg = py_lower message;
          sec = (case section_name of None \<Rightarrow> [] | Some s \<Rightarrow> s)
      in if py_in ''no default u-b types'' msg \<or> py_in ''angle type'' msg \<or> py_in ''angle'' sec
         then AngleKind
         else if py_in ''no default dihedral type'' msg \<or> py_in ''dihedral type'' msg
                 \<or> py_in ''dihedral'' sec
         then DihedralKind
         else UnrecognizedKind)"

text \<open>
  What the synthesizer does with one record: it skips a record without atom types;
  otherwise the kind decides, and within a kind the number of atom types must be 3 for an
  angle and 4 for a dihedral, a record with another number being a wrong-arity skip; a
  matching record gives one row.
\<close>

datatype record_outcome =
  NoAtomTypes | AngleRow string | DihedralRow string | WrongArity | Unrecognized

definition spec_outcome :: "error_rec \<Rightarrow> record_outcome" where
  "spec_outcome e =
     (case atom_types e of
        None \<Rightarrow> NoAtomTypes
      | Some ats \<Rightarrow>
          if ats = [] then NoAtomTypes
          else
            (case spec_classify (error_msg e) (err_section e) of
               AngleKind \<Rightarrow>
                 if length ats = 3 then
                   (case generate_angle_dummy ats of Some row \<Rightarrow> AngleRow row | None \<Rightarrow> WrongArity)
                 else WrongArity
             | DihedralKind \<Rightarrow>
                 if length ats = 4 then
                   (case generate_dihedral_dummy ats of Some row \<Rightarrow> DihedralRow row | None \<Rightarrow> WrongArity)
                 else WrongArity
             | UnrecognizedKind \<Rightarrow> Unrecognized))"

definition gives_row :: "record_outcome \<Rightarrow> bool" where
  "gives_row out = (case out of AngleRow row \<Rightarrow> True | DihedralRow row \<Rightarrow> True | _ \<Rightarrow> False)"

text \<open>
  The keys that \<open>get_context_from_topology\<close> can store, in the order in which it prints
  them; they are the section names that \<open>identify_atoms_from_context\<close> can resolve.
\<close>

definition section_names :: "string list" where
  "section_names = [''[ atoms ]'', ''[ bonds ]'', ''[ pairs ]'', ''[ angles ]'',
                    ''[ proper dihedrals ]'', ''[ improper dihedrals ]'']"

section \<open>Example inputs\<close>

text \<open>An error dictionary as \<open>extract_error_info\<close> builds it.\<close>

definition ex_error :: "nat \<Rightarrow> string \<Rightarrow> error_rec" where
  "ex_error n msg = \<lparr>error_num = 1, line_number = n, error_msg = msg, err_section = None,
     atoms = None, atom_names = None, residues = None, atom_types = None\<rparr>"

text \<open>An error dictionary after the loop of \<open>main\<close>, for atoms that are not in the table.\<close>

definition ex_enriched :: "nat \<Rightarrow> string \<Rightarrow> string \<Rightarrow> int list \<Rightarrow> string list \<Rightarrow> error_rec" where
  "ex_enriched n msg sec atom_list ats =
     (ex_error n msg)\<lparr>err_section := Some sec, atoms := Some atom_list,
        atom_names := Some (map (\<lambda>a. ''Unknown-'' @ py_str a) atom_list),
        residues := Some (map (\<lambda>a. ''Unknown'') atom_list), atom_types := Some ats\<rparr>"

text \<open>A topology text of twelve lines, with \<open>[ angles ]\<close> on line 10.\<close>

definition ex_topology :: "string list" where
  "ex_topology =
     [''[ atoms ]'',
      ''; nr type resnr residue atom cgnr charge mass'',
      ''5 CA 1 ALA N 1 -0.47 14.007'',
      ''7 CB 1 ALA CA 1 0.07 12.011'',
      ''9 CC 1 ALA C 1 0.51 12.011'',
      '''',
      ''[ bonds ]'',
      ''5 7 1'',
      '''',
      ''[ angles ]'',
      ''; ai aj ak funct'',
      ''5  7  9  3'']"

section \<open>Properties of get_context_from_topology\<close>

lemma map_of_dict_set: "map_of (dict_set k v d) k' = (if k' = k then Some v else map_of d k')"
  by (induction d) auto

lemma count_of_dict_set: "count_of (dict_set k v d) k' = (if k' = k then v else count_of d k')"
  by (simp add: count_of_def map_of_dict_set)

lemma py_lower_sections:
  "py_lower ''[ atoms ]'' = ''[ atoms ]''"
  "py_lower ''[ bonds ]'' = ''[ bonds ]''"
  "py_lower ''[ pairs ]'' = ''[ pairs ]''"
  "py_lower ''[ angles ]'' = ''[ angles ]''"
  "py_lower ''[ dihedrals ]'' = ''[ dihedrals ]''"
  by (simp_all add: py_lower_def lower_char_def)

lemma visit_section_lines_other:
  assumes "h \<noteq> ''[ proper dihedrals ]''" "h \<noteq> ''[ improper dihedrals ]''"
  shows "map_of (section_lines (visit_section i line st sec)) h =
     (if py_lower line = py_lower sec \<and> sec = h \<and> sec \<noteq> ''[ dihedrals ]'' then Some i else map_of (section_lines st) h)"
  using assms unfolding visit_section_def Let_def
  by (simp add: map_of_dict_set)

lemma visit_section_count:
  "count_of (section_counts (visit_section i line st sec)) h =
     (if py_lower line = py_lower sec \<and> sec = h then count_of (section_counts st) h + 1
      else count_of (section_counts st) h)"
  unfolding visit_section_def Let_def
  by (simp add: count_of_dict_set)

lemma visit_section_proper:
  "map_of (section_lines (visit_section i line st sec)) ''[ proper dihedrals ]'' =
     (if py_lower line = py_lower sec \<and> (sec = ''[ proper dihedrals ]'' \<or> sec = ''[ dihedrals ]'' \<and> count_of (section_counts st) sec = 0) then Some i
      else map_of (section_lines st) ''[ proper dihedrals ]'')"
  unfolding visit_section_def Let_def
  by (simp add: count_of_dict_set map_of_dict_set)

lemma visit_section_improper:
  "map_of (section_lines (visit_section i line st sec)) ''[ improper dihedrals ]'' =
     (if py_lower line = py_lower sec \<and> (sec = ''[ improper dihedrals ]'' \<or> sec = ''[ dihedrals ]'' \<and> count_of (section_counts st) sec = 1) then Some i
      else map_of (section_lines st) ''[ improper dihedrals ]'')"
  unfolding visit_section_def Let_def
  by (simp add: count_of_dict_set map_of_dict_set)

lemma visit_line_unfold:
  "visit_line st (i, l) =
     visit_section i (py_strip l)
      (visit_section i (py_strip l)
        (visit_section i (py_strip l)
          (visit_section i (py_strip l)
            (visit_section i (py_strip l) st ''[ atoms ]'') ''[ bonds ]'') ''[ pairs ]'') ''[ angles ]'')
      ''[ dihedrals ]''"
  by (simp add: visit_line_def sections_def)

lemma visit_line_simple4:
  "map_of (section_lines (visit_line st (i, l))) ''[ atoms ]'' =
         (if is_header ''[ atoms ]'' l then Some i else map_of (section_lines st) ''[ atoms ]'')"
  "map_of (section_lines (visit_line st (i, l))) ''[ bonds ]'' =
         (if is_header ''[ bonds ]'' l then Some i else map_of (section_lines st) ''[ bonds ]'')"
  "map_of (section_lines (visit_line st (i, l))) ''[ pairs ]'' =
         (if is_header ''[ pairs ]'' l then Some i else map_of (section_lines st) ''[ pairs ]'')"
  "map_of (section_lines (visit_line st (i, l))) ''[ angles ]'' =
         (if is_header ''[ angles ]'' l then Some i else map_of (section_lines st) ''[ angles ]'')"
  unfolding visit_line_unfold is_header_def
  by (simp_all add: visit_section_lines_other)

lemma visit_line_simple:
  assumes "h \<in> {''[ atoms ]'', ''[ bonds ]'', ''[ pairs ]'', ''[ angles ]''}"
  shows "map_of (section_lines (visit_line st (i, l))) h =
         (if is_header h l then Some i else map_of (section_lines st) h)"
  using assms visit_line_simple4 [of st i l] by (elim insertE emptyE) (simp_all only:)

lemma visit_line_count:
  "count_of (section_counts (visit_line st (i, l))) ''[ dihedrals ]'' =
     count_of (section_counts st) ''[ dihedrals ]'' + (if is_header ''[ dihedrals ]'' l then 1 else 0)"
  unfolding visit_line_unfold is_header_def
  by (simp add: visit_section_count)

lemma visit_line_proper:
  "map_of (section_lines (visit_line st (i, l))) ''[ proper dihedrals ]'' =
     (if is_header ''[ dihedrals ]'' l \<and> count_of (section_counts st) ''[ dihedrals ]'' = 0 then Some i
      else map_of (section_lines st) ''[ proper dihedrals ]'')"
  unfolding visit_line_unfold is_header_def
  by (simp add: visit_section_count visit_section_proper)

lemma visit_line_improper:
  "map_of (section_lines (visit_line st (i, l))) ''[ improper dihedrals ]'' =
     (if is_header ''[ dihedrals ]'' l \<and> count_of (section_counts st) ''[ dihedrals ]'' = 1 then Some i
      else map_of (section_lines st) ''[ improper dihedrals ]'')"
  unfolding visit_line_unfold is_header_def
  by (simp add: visit_section_count visit_section_improper)

lemma index_run_snoc: "index_run (ls @ [l]) = visit_line (index_run ls) (Suc (length ls), l)"
  by (simp add: index_run_def enumerate_append_eq)

lemma occurrences_snoc:
  "occurrences h (ls @ [l]) = occurrences h ls @ (if is_header h l then [Suc (length ls)] else [])"
  by (simp add: occurrences_def enumerate_append_eq)

lemma index_run_Nil: "section_lines (index_run []) = []"
  "count_of (section_counts (index_run [])) ''[ dihedrals ]'' = 0"
  by (simp_all add: index_run_def index_init_def sections_def count_of_def)

lemma index_simple:
  assumes "h \<in> {''[ atoms ]'', ''[ bonds ]'', ''[ pairs ]'', ''[ angles ]''}"
  shows "map_of (get_context_from_topology ls) h =
     (if occurrences h ls = [] then None else Some (last (occurrences h ls)))"
proof (induction ls rule: rev_induct)
  case Nil
  show ?case by (simp add: get_context_from_topology_def index_run_Nil occurrences_def)
next
  case (snoc l ls)
  then show ?case
    unfolding get_context_from_topology_def index_run_snoc occurrences_snoc
      visit_line_simple [OF assms]
    by simp
qed

lemma index_count:
  "count_of (section_counts (index_run ls)) ''[ dihedrals ]'' = length (occurrences ''[ dihedrals ]'' ls)"
proof (induction ls rule: rev_induct)
  case Nil
  show ?case by (simp add: index_run_Nil occurrences_def)
next
  case (snoc l ls)
  then show ?case
    unfolding index_run_snoc occurrences_snoc visit_line_count
    by simp
qed

lemma index_proper:
  "map_of (get_context_from_topology ls) ''[ proper dihedrals ]'' =
     (case occurrences ''[ dihedrals ]'' ls of [] \<Rightarrow> None | a # _ \<Rightarrow> Some a)"
proof (induction ls rule: rev_induct)
  case Nil
  show ?case by (simp add: get_context_from_topology_def index_run_Nil occurrences_def)
next
  case (snoc l ls)
  then show ?case
    unfolding get_context_from_topology_def index_run_snoc occurrences_snoc
      visit_line_proper index_count
    by (simp split: list.splits)
qed

lemma index_improper:
  "map_of (get_context_from_topology ls) ''[ improper dihedrals ]'' =
     (case occurrences ''[ dihedrals ]'' ls of a # b # _ \<Rightarrow> Some b | _ \<Rightarrow> None)"
proof (induction ls rule: rev_induct)
  case Nil
  show ?case by (simp add: get_context_from_topology_def index_run_Nil occurrences_def)
next
  case (snoc l ls)
  then show ?case
    unfolding get_context_from_topology_def index_run_snoc occurrences_snoc
      visit_line_improper index_count
    by (simp split: list.splits)
qed

lemma occurrences_append:
  "occurrences h (ls @ rest) =
     occurrences h ls @ map fst (filter (\<lambda>il. is_header h (snd il)) (enumerate (1 + length ls) rest))"
  by (simp add: occurrences_def enumerate_append_eq)

text \<open>
  C1, as the code has it: for each of the headers \<open>[ atoms ]\<close>, \<open>[ bonds ]\<close>, \<open>[ pairs ]\<close>
  and \<open>[ angles ]\<close> that occurs in the topology text, the index maps the section to the
  line number of the LAST occurrence: every occurrence overwrites the entry.
\<close>

theorem index_sections_last_occurrence:
  assumes "h \<in> {''[ atoms ]'', ''[ bonds ]'', ''[ pairs ]'', ''[ angles ]''}"
    and "occurrences h ls \<noteq> []"
  shows "map_of (get_context_from_topology ls) h = Some (last (occurrences h ls))"
  using assms(2) by (simp add: index_simple [OF assms(1)])

theorem index_sections_last_occurrence_witness:
  "''[ bonds ]'' \<in> {''[ atoms ]'', ''[ bonds ]'', ''[ pairs ]'', ''[ angles ]''}
   \<and> occurrences ''[ bonds ]'' [''[ bonds ]'', ''1 2 1'', '' [ Bonds ] '', ''3 4 1''] = [1, 3]
   \<and> map_of (get_context_from_topology [''[ bonds ]'', ''1 2 1'', '' [ Bonds ] '', ''3 4 1'']) ''[ bonds ]''
       = Some 3"
proof -
  have occ: "occurrences ''[ bonds ]'' [''[ bonds ]'', ''1 2 1'', '' [ Bonds ] '', ''3 4 1''] = [1, 3]"
    by code_simp
  have mem: "''[ bonds ]'' \<in> {''[ atoms ]'', ''[ bonds ]'', ''[ pairs ]'', ''[ angles ]''}"
    by simp
  from index_sections_last_occurrence [OF mem, of "[''[ bonds ]'', ''1 2 1'', '' [ Bonds ] '', ''3 4 1'']"]
  show ?thesis using occ mem by simp
qed

text \<open>
  C1 as stated fails: with \<open>[ atoms ]\<close> on lines 1 and 3, the first occurrence is line 1,
  and the index holds line 3.
\<close>

theorem index_sections_first_occurrence_counterexample:
  "hd (occurrences ''[ atoms ]'' [''[ atoms ]'', ''1 CA 1 ALA N'', ''[ atoms ]'']) = 1
   \<and> map_of (get_context_from_topology [''[ atoms ]'', ''1 CA 1 ALA N'', ''[ atoms ]'']) ''[ atoms ]''
       = Some 3"
  by code_simp

text \<open>
  C2: the first line that is the header \<open>[ dihedrals ]\<close> (trimmed, ignoring case) is the
  entry \<open>[ proper dihedrals ]\<close>, the second one is the entry \<open>[ improper dihedrals ]\<close>, and
  once two occurrences have been seen no further line changes either entry.
\<close>

theorem index_sections_dihedrals:
  "map_of (get_context_from_topology ls) ''[ proper dihedrals ]'' =
     (case occurrences ''[ dihedrals ]'' ls of [] \<Rightarrow> None | a # _ \<Rightarrow> Some a)
   \<and> map_of (get_context_from_topology ls) ''[ improper dihedrals ]'' =
     (case occurrences ''[ dihedrals ]'' ls of a # b # _ \<Rightarrow> Some b | _ \<Rightarrow> None)
   \<and> (2 \<le> length (occurrences ''[ dihedrals ]'' ls) \<longrightarrow>
        map_of (get_context_from_topology (ls @ rest)) ''[ proper dihedrals ]'' =
          map_of (get_context_from_topology ls) ''[ proper dihedrals ]''
        \<and> map_of (get_context_from_topology (ls @ rest)) ''[ improper dihedrals ]'' =
          map_of (get_context_from_topology ls) ''[ improper dihedrals ]'')"
proof -
  have later: "2 \<le> length xs \<Longrightarrow>
      (case xs @ ys of [] \<Rightarrow> None | a # _ \<Rightarrow> Some a) = (case xs of [] \<Rightarrow> None | a # _ \<Rightarrow> Some a)
      \<and> (case xs @ ys of a # b # _ \<Rightarrow> Some b | _ \<Rightarrow> None) = (case xs of a # b # _ \<Rightarrow> Some b | _ \<Rightarrow> None)"
    for xs ys :: "nat list"
    by (cases xs; cases "tl xs") auto
  show ?thesis
    unfolding index_proper index_improper occurrences_append
    using later by blast
qed

theorem index_sections_dihedrals_witness:
  "occurrences ''[ dihedrals ]'' [''[ dihedrals ]'', ''1 2 3 4 9'', ''[ DIHEDRALS ]  ''] = [1, 3]
   \<and> map_of (get_context_from_topology ([''[ dihedrals ]'', ''1 2 3 4 9'', ''[ DIHEDRALS ]  ''] @ [''5 6 7 8 2'', ''[ dihedrals ]'']))
        ''[ proper dihedrals ]'' = Some 1
   \<and> map_of (get_context_from_topology ([''[ dihedrals ]'', ''1 2 3 4 9'', ''[ DIHEDRALS ]  ''] @ [''5 6 7 8 2'', ''[ dihedrals ]'']))
        ''[ improper dihedrals ]'' = Some 3"
proof -
  have occ: "occurrences ''[ dihedrals ]'' [''[ dihedrals ]'', ''1 2 3 4 9'', ''[ DIHEDRALS ]  ''] = [1, 3]"
    by code_simp
  from index_sections_dihedrals [of "[''[ dihedrals ]'', ''1 2 3 4 9'', ''[ DIHEDRALS ]  '']"
      "[''5 6 7 8 2'', ''[ dihedrals ]'']"]
  show ?thesis unfolding occ by simp
qed

section \<open>Properties of identify_atoms_from_context\<close>

lemma find_section_SomeD:
  "find_section sl el items = Some s \<Longrightarrow>
     \<exists>st. (s, st) \<in> set items \<and> st \<le> el \<and> is_last_section sl el st"
  by (induction items) (auto split: if_splits)

lemma find_section_None_iff:
  "find_section sl el items = None \<longleftrightarrow>
     (\<forall>(s, st) \<in> set items. \<not> (st \<le> el \<and> is_last_section sl el st))"
proof (induction items)
  case Nil
  show ?case by simp
next
  case (Cons a items)
  show ?case by (cases a) (simp add: Cons.IH)
qed

lemma is_last_section_iff:
  "is_last_section sl el st \<longleftrightarrow> (\<forall>(s', st') \<in> set sl. st' \<le> el \<longrightarrow> st' \<le> st)"
  by (auto simp add: is_last_section_def list_ex_iff)

lemma latest_start_exists:
  assumes "(s0, st0) \<in> set sl" "st0 \<le> el"
  shows "\<exists>(s, st) \<in> set sl. st \<le> el \<and> is_last_section sl el st"
proof -
  let ?S = "{st. \<exists>s. (s, st) \<in> set sl \<and> st \<le> el}"
  have fin: "finite ?S"
    by (rule finite_subset [of _ "snd ` set sl"]) force+
  have ne: "?S \<noteq> {}" using assms by auto
  from Max_in [OF fin ne] obtain s where s: "(s, Max ?S) \<in> set sl" "Max ?S \<le> el" by auto
  have "st' \<le> Max ?S" if "(s', st') \<in> set sl" "st' \<le> el" for s' st'
    using that by (intro Max_ge [OF fin]) blast
  then have "is_last_section sl el (Max ?S)"
    unfolding is_last_section_iff by blast
  with s show ?thesis by auto
qed

lemma find_section_None_iff_all_later:
  "find_section sl el sl = None \<longleftrightarrow> (\<forall>(s, st) \<in> set sl. el < st)"
proof
  assume n: "find_section sl el sl = None"
  show "\<forall>(s, st) \<in> set sl. el < st"
  proof (rule ccontr)
    assume "\<not> (\<forall>(s, st) \<in> set sl. el < st)"
    then obtain s0 st0 where "(s0, st0) \<in> set sl" "st0 \<le> el" by (auto simp: not_less)
    from latest_start_exists [OF this] n show False
      unfolding find_section_None_iff by auto
  qed
next
  assume "\<forall>(s, st) \<in> set sl. el < st"
  then show "find_section sl el sl = None"
    unfolding find_section_None_iff by auto
qed

lemma map_of_enumerate:
  "map_of (enumerate k ls) n = (if k \<le> n \<and> n < k + length ls then Some (ls ! (n - k)) else None)"
proof (induction ls arbitrary: k)
  case Nil
  show ?case by simp
next
  case (Cons l ls)
  show ?case by (auto simp add: Cons.IH Suc_diff_le)
qed

text \<open>
  C7: when every indexed section starts after the error's line, or the error's line is
  beyond the last line of the topology text, the four returned lists are empty (the
  function returns; nothing is raised). When some section starts at or before the error's
  line, the section written into the error record is an indexed section whose start line
  is at most the error's line and at least every other such start line.
\<close>

theorem correlate_section_resolution:
  "((\<forall>(s, st) \<in> set sl. line_number e < st) \<or> length ls < line_number e \<longrightarrow>
      snd (identify_atoms_from_context e sl ls ai) = ([], [], [], []))
   \<and> ((\<exists>(s, st) \<in> set sl. st \<le> line_number e) \<longrightarrow>
      (\<exists>s st. find_section sl (line_number e) sl = Some s
          \<and> err_section (fst (identify_atoms_from_context e sl ls ai)) = Some s
          \<and> (s, st) \<in> set sl \<and> st \<le> line_number e
          \<and> (\<forall>(s', st') \<in> set sl. st' \<le> line_number e \<longrightarrow> st' \<le> st)))"
proof (intro conjI impI)
  assume "(\<forall>(s, st) \<in> set sl. line_number e < st) \<or> length ls < line_number e"
  then show "snd (identify_atoms_from_context e sl ls ai) = ([], [], [], [])"
  proof
    assume "\<forall>(s, st) \<in> set sl. line_number e < st"
    then have "find_section sl (line_number e) sl = None"
      by (simp only: find_section_None_iff_all_later)
    then show ?thesis by (simp add: identify_atoms_from_context_def)
  next
    assume "length ls < line_number e"
    then have "map_of (enumerate 1 ls) (line_number e) = None"
      by (simp add: map_of_enumerate)
    then show ?thesis
      by (simp add: identify_atoms_from_context_def Let_def split: option.splits)
  qed
next
  assume "\<exists>(s, st) \<in> set sl. st \<le> line_number e"
  then have "find_section sl (line_number e) sl \<noteq> None"
    unfolding find_section_None_iff_all_later by force
  then obtain s where s: "find_section sl (line_number e) sl = Some s" by blast
  from find_section_SomeD [OF s] obtain st where
    st: "(s, st) \<in> set sl" "st \<le> line_number e" "is_last_section sl (line_number e) st"
    by blast
  have "err_section (fst (identify_atoms_from_context e sl ls ai)) = Some s"
    using s by (simp add: identify_atoms_from_context_def Let_def split: option.splits sum.splits)
  with s st show "\<exists>s st. find_section sl (line_number e) sl = Some s
          \<and> err_section (fst (identify_atoms_from_context e sl ls ai)) = Some s
          \<and> (s, st) \<in> set sl \<and> st \<le> line_number e
          \<and> (\<forall>(s', st') \<in> set sl. st' \<le> line_number e \<longrightarrow> st' \<le> st)"
    unfolding is_last_section_iff by blast
qed

theorem correlate_section_resolution_witness:
  "snd (identify_atoms_from_context (ex_error 4 ''No default Bond type'')
          [(''[ atoms ]'', 1), (''[ bonds ]'', 3)] [''[ atoms ]'', ''1 CA 1 ALA N'', ''[ bonds ]''] None)
     = ([], [], [], [])
   \<and> err_section (fst (identify_atoms_from_context (ex_error 4 ''No default Bond type'')
          [(''[ atoms ]'', 1), (''[ bonds ]'', 3)] [''[ atoms ]'', ''1 CA 1 ALA N'', ''[ bonds ]''] None))
     = Some ''[ bonds ]''"
proof -
  have len: "length [''[ atoms ]'', ''1 CA 1 ALA N'', ''[ bonds ]''] < line_number (ex_error 4 ''No default Bond type'')"
    by (simp add: ex_error_def)
  have ex: "\<exists>(s, st) \<in> set [(''[ atoms ]'', 1), (''[ bonds ]'', 3::nat)]. st \<le> line_number (ex_error 4 ''No default Bond type'')"
    by (simp add: ex_error_def)
  have fs: "find_section [(''[ atoms ]'', 1), (''[ bonds ]'', 3)] (line_number (ex_error 4 ''No default Bond type''))
       [(''[ atoms ]'', 1), (''[ bonds ]'', 3)] = Some ''[ bonds ]''"
    by code_simp
  from correlate_section_resolution [of "[(''[ atoms ]'', 1), (''[ bonds ]'', 3)]"
      "ex_error 4 ''No default Bond type''" "[''[ atoms ]'', ''1 CA 1 ALA N'', ''[ bonds ]'']" None]
  show ?thesis using len ex fs by auto
qed

text \<open>
  C10: once a section has been found, it is stored in the error record before the line
  is looked up; when the line does not exist, or the conversion of a leading token to an
  integer raises, the four lists are empty and the record carries the section.
\<close>

theorem correlate_error_path_sets_section:
  assumes "find_section sl (line_number e) sl = Some s"
    and "line_number e = 0 \<or> length ls < line_number e
         \<or> extract_atoms s (py_split (py_strip (ls ! (line_number e - 1)))) = Inl err"
  shows "identify_atoms_from_context e sl ls ai = (e\<lparr>err_section := Some s\<rparr>, ([], [], [], []))"
proof -
  consider (out) "line_number e = 0 \<or> length ls < line_number e"
    | (raise) "1 \<le> line_number e" "line_number e \<le> length ls"
        "extract_atoms s (py_split (py_strip (ls ! (line_number e - 1)))) = Inl err"
    using assms(2) by fastforce
  then show ?thesis
  proof cases
    case out
    then have "map_of (enumerate 1 ls) (line_number e) = None"
      by (auto simp add: map_of_enumerate)
    then show ?thesis using assms(1) by (simp add: identify_atoms_from_context_def)
  next
    case raise
    then have "map_of (enumerate 1 ls) (line_number e) = Some (ls ! (line_number e - 1))"
      by (simp add: map_of_enumerate)
    then show ?thesis using assms(1) raise(3) by (simp add: identify_atoms_from_context_def)
  qed
qed

theorem correlate_error_path_sets_section_witness:
  "identify_atoms_from_context (ex_error 2 ''No default Angle type'') [(''[ angles ]'', 1)]
      [''[ angles ]'', ''5 x 9 1''] None
   = ((ex_error 2 ''No default Angle type'')\<lparr>err_section := Some ''[ angles ]''\<rparr>, ([], [], [], []))"
proof -
  have fs: "find_section [(''[ angles ]'', 1)] (line_number (ex_error 2 ''No default Angle type''))
      [(''[ angles ]'', 1)] = Some ''[ angles ]''"
    by code_simp
  have ex: "extract_atoms ''[ angles ]''
      (py_split (py_strip ([''[ angles ]'', ''5 x 9 1''] ! (line_number (ex_error 2 ''No default Angle type'') - 1))))
      = Inl ValueError"
    by code_simp
  show ?thesis
    by (rule correlate_error_path_sets_section [OF fs disjI2 [OF disjI2 [OF ex]]])
qed

lemma resolve_atoms_Nil: "resolve_atoms ai [] = ([], [], [])"
  by (simp add: resolve_atoms_def split: option.splits)

lemma identify_resolved:
  "\<exists>ats. snd (identify_atoms_from_context e sl ls ai) = (ats, resolve_atoms ai ats)"
proof -
  have "snd (identify_atoms_from_context e sl ls ai) = ([], resolve_atoms ai [])
      \<or> (\<exists>ats. snd (identify_atoms_from_context e sl ls ai) = (ats, resolve_atoms ai ats))"
    by (simp add: identify_atoms_from_context_def Let_def resolve_atoms_Nil
        split: option.splits sum.splits)
  then show ?thesis by blast
qed

text \<open>
  C4, as the code has it: with a non-empty atom table the three lists have the length of
  the atom list, and position by position they hold the stored name, residue name followed
  by residue number, and type of an index that is in the table, and \<open>Unknown-<index>\<close>,
  \<open>Unknown\<close>, \<open>Unknown\<close> for an index that is not. With an empty table, or without
  one, the three lists are empty whatever the atom list is.
\<close>

theorem correlate_atom_resolution:
  assumes "identify_atoms_from_context e sl ls ai = (e', (ats, names, res, types))"
  shows "(\<forall>t. ai = Some t \<and> t \<noteq> [] \<longrightarrow>
            length names = length ats \<and> length res = length ats \<and> length types = length ats \<and>
            (\<forall>i < length ats.
               case map_of t (ats ! i) of
                 Some info \<Rightarrow> names ! i = name info \<and> res ! i = residue info @ resnr info
                               \<and> types ! i = type info
               | None \<Rightarrow> names ! i = ''Unknown-'' @ py_str (ats ! i) \<and> res ! i = ''Unknown''
                               \<and> types ! i = ''Unknown''))
         \<and> (ai = None \<or> ai = Some [] \<longrightarrow> names = [] \<and> res = [] \<and> types = [])"
proof -
  from identify_resolved [of e sl ls ai] assms
  have r: "(names, res, types) = resolve_atoms ai ats" by auto
  show ?thesis
  proof (intro conjI allI impI)
    fix t assume t: "ai = Some t \<and> t \<noteq> []"
    with r have eq: "names = map (atom_name_of t) ats" "res = map (residue_info_of t) ats"
        "types = map (atom_type_of t) ats"
      by (simp_all add: resolve_atoms_def)
    show "length names = length ats" "length res = length ats" "length types = length ats"
      by (simp_all add: eq)
    fix i assume "i < length ats"
    then show "case map_of t (ats ! i) of
                 Some info \<Rightarrow> names ! i = name info \<and> res ! i = residue info @ resnr info
                               \<and> types ! i = type info
               | None \<Rightarrow> names ! i = ''Unknown-'' @ py_str (ats ! i) \<and> res ! i = ''Unknown''
                               \<and> types ! i = ''Unknown''"
      by (simp add: eq atom_name_of_def residue_info_of_def atom_type_of_def split: option.splits)
  next
    assume "ai = None \<or> ai = Some []"
    with r show "names = []" "res = []" "types = []"
      by (auto simp add: resolve_atoms_def)
  qed
qed

theorem correlate_atom_resolution_witness:
  "identify_atoms_from_context (ex_error 2 ''No default Bond type'') [(''[ bonds ]'', 1)]
      [''[ bonds ]'', ''1 2 1'']
      (Some [(1, \<lparr>name = ''N'', type = ''NH1'', resnr = ''7'', residue = ''ALA''\<rparr>)])
    = ((ex_error 2 ''No default Bond type'')\<lparr>err_section := Some ''[ bonds ]''\<rparr>,
       ([1, 2], [''N'', ''Unknown-2''], [''ALA7'', ''Unknown''], [''NH1'', ''Unknown'']))
   \<and> length [''N'', ''Unknown-2''] = length [1, 2 :: int]
   \<and> [''N'', ''Unknown-2''] ! 1 = ''Unknown-'' @ py_str 2"
proof -
  have ev: "identify_atoms_from_context (ex_error 2 ''No default Bond type'') [(''[ bonds ]'', 1)]
      [''[ bonds ]'', ''1 2 1'']
      (Some [(1, \<lparr>name = ''N'', type = ''NH1'', resnr = ''7'', residue = ''ALA''\<rparr>)])
    = ((ex_error 2 ''No default Bond type'')\<lparr>err_section := Some ''[ bonds ]''\<rparr>,
       ([1, 2], [''N'', ''Unknown-2''], [''ALA7'', ''Unknown''], [''NH1'', ''Unknown'']))"
    by code_simp
  from correlate_atom_resolution [OF ev] show ?thesis
    using ev by auto
qed

text \<open>
  C4 as stated fails on the empty table: two atom indices are extracted, and the name,
  residue and type lists are empty instead of holding two placeholders each.
\<close>

theorem correlate_empty_table_counterexample:
  "snd (identify_atoms_from_context (ex_error 2 ''No default Bond type'') [(''[ bonds ]'', 1)]
      [''[ bonds ]'', ''1 2 1''] (Some []))
    = ([1, 2], [], [], [])"
  by code_simp

section \<open>Properties of extract_atom_names\<close>

lemma lines_between_take_drop: "lines_between ls a b = take (b - Suc a) (drop a ls)"
proof (rule nth_equalityI)
  show "length (lines_between ls a b) = length (take (b - Suc a) (drop a ls))"
    by (auto simp add: lines_between_def)
next
  fix i assume "i < length (lines_between ls a b)"
  then have i3: "i < length [Suc a..<min b (Suc (length ls))]"
    by (simp add: lines_between_def)
  then have "i < min b (Suc (length ls)) - Suc a" by simp
  then have i4: "Suc a + i < min b (Suc (length ls))" and i1: "i < b - Suc a"
    and i2: "a + i < length ls"
    by arith+
  have "lines_between ls a b ! i = ls ! (a + i)"
    by (simp only: lines_between_def nth_map [OF i3] nth_upt [OF i4]) simp
  moreover have "take (b - Suc a) (drop a ls) ! i = ls ! (a + i)"
    using i1 i2 by simp
  ultimately show "lines_between ls a b ! i = take (b - Suc a) (drop a ls) ! i"
    by simp
qed

lemma atoms_end_step_min:
  "atoms_end_step a acc (s, l) =
     (if a < l then (case acc of None \<Rightarrow> Some l | Some e \<Rightarrow> Some (min e l)) else acc)"
  by (auto simp add: atoms_end_step_def min_def split: option.splits)

lemma Min_insert_min:
  fixes e l :: nat
  assumes "finite S"
  shows "Min (insert (min e l) S) = Min (insert e (insert l S))"
proof (cases "S = {}")
  case True
  then show ?thesis by simp
next
  case False
  with assms show ?thesis by (simp add: min.assoc)
qed

lemma atoms_end_fold:
  "foldl (atoms_end_step a) acc sl =
     (let later = filter (\<lambda>line. a < line) (map snd sl)
      in case acc of
           None \<Rightarrow> if later = [] then None else Some (Min (set later))
         | Some e \<Rightarrow> Some (Min (insert e (set later))))"
proof (induction sl arbitrary: acc)
  case Nil
  show ?case by (simp split: option.splits)
next
  case (Cons x sl)
  obtain s l where x: "x = (s, l)" by (cases x)
  let ?later = "filter (\<lambda>line. a < line) (map snd sl)"
  have fin: "finite (set ?later)" by simp
  show ?case
  proof (cases "a < l")
    case False
    then show ?thesis
      unfolding x foldl_Cons atoms_end_step_min Cons.IH by simp
  next
    case True
    show ?thesis
    proof (cases acc)
      case None
      with True show ?thesis
        unfolding x foldl_Cons atoms_end_step_min Cons.IH by simp
    next
      case (Some e)
      with True show ?thesis
        unfolding x foldl_Cons atoms_end_step_min Cons.IH
        using Min_insert_min [OF fin, of e l] by simp
    qed
  qed
qed

lemma find_atoms_end_eq:
  "find_atoms_end a sl =
     (let later = filter (\<lambda>line. a < line) (map snd sl)
      in if later = [] then None else Some (Min (set later)))"
  by (simp add: find_atoms_end_def atoms_end_fold)

lemma read_atoms_line_num: "read_atoms None n ls t = read_atoms None m ls t"
proof (induction ls arbitrary: n m t)
  case Nil
  show ?case by simp
next
  case (Cons l ls)
  show ?case
    using Cons.IH [where n = "n + 1" and m = "m + 1"]
    by (simp add: Let_def split: sum.splits)
qed

lemma read_atoms_take:
  "read_atoms (Some e) n ls t = read_atoms None n (take (e - n) ls) t"
proof (induction ls arbitrary: n t)
  case Nil
  show ?case by simp
next
  case (Cons l ls)
  show ?case
  proof (cases "e \<le> n")
    case True
    then show ?thesis by simp
  next
    case False
    then have "e - n = Suc (e - (n + 1))" by simp
    then show ?thesis
      using False Cons.IH [where n = "n + 1"]
      by (simp add: Let_def split: sum.splits)
  qed
qed

lemma read_atoms_store_rows:
  "read_atoms None n ls t = store_rows (filter is_data_line ls) t"
proof (induction ls arbitrary: n t)
  case Nil
  show ?case by simp
next
  case (Cons l ls)
  show ?case
    by (simp add: Cons.IH is_data_line_def Let_def split: sum.splits)
qed

lemma extract_atom_names_try_span:
  assumes "map_of sl ''[ atoms ]'' = Some a" "a \<le> length ls"
  shows "extract_atom_names_try ls sl =
     store_rows (filter is_data_line (lines_between ls a (spec_atoms_end a sl (length ls)))) []"
proof (cases "filter (\<lambda>line. a < line) (map snd sl) = []")
  case True
  then have "find_atoms_end a sl = None" "spec_atoms_end a sl (length ls) = Suc (length ls)"
    by (simp_all add: find_atoms_end_eq spec_atoms_end_def)
  then show ?thesis
    using assms
    by (simp add: extract_atom_names_try_def lines_between_take_drop
        read_atoms_store_rows [of "Suc a"])
next
  case False
  then have "find_atoms_end a sl = Some (spec_atoms_end a sl (length ls))"
    by (simp add: find_atoms_end_eq spec_atoms_end_def)
  then show ?thesis
    using assms
    by (simp add: extract_atom_names_try_def lines_between_take_drop read_atoms_take
        read_atoms_store_rows [of "Suc a"])
qed

lemma extract_atom_names_span:
  assumes "map_of sl ''[ atoms ]'' = Some a"
  shows "extract_atom_names ls sl =
     (case store_rows (filter is_data_line (lines_between ls a (spec_atoms_end a sl (length ls)))) [] of
        Inl e \<Rightarrow> [] | Inr t \<Rightarrow> t)"
proof (cases "a \<le> length ls")
  case True
  then show ?thesis
    by (simp add: extract_atom_names_def extract_atom_names_try_span [OF assms True])
next
  case False
  then have "lines_between ls a (spec_atoms_end a sl (length ls)) = []"
    by (simp add: lines_between_take_drop)
  with False assms show ?thesis
    by (simp add: extract_atom_names_def extract_atom_names_try_def)
qed

lemma store_atom_Inl: "store_atom tokens t = Inl e \<Longrightarrow> e = ValueError"
  by (auto simp add: store_atom_def split: if_splits option.splits)

lemma store_rows_bad:
  assumes "l \<in> set rows" "5 \<le> length (py_split (py_strip l))"
    "py_int (py_split (py_strip l) ! 0) = None"
  shows "store_rows rows t = Inl ValueError"
  using assms(1)
proof (induction rows arbitrary: t)
  case Nil
  then show ?case by simp
next
  case (Cons r rows)
  show ?case
  proof (cases "store_atom (py_split (py_strip r)) t")
    case (Inl e)
    then show ?thesis using store_atom_Inl [OF Inl] by simp
  next
    case (Inr t')
    then have "r \<noteq> l" using assms(2,3) by (auto simp add: store_atom_def)
    with Cons.prems have "l \<in> set rows" by simp
    from Cons.IH [OF this] Inr show ?thesis by simp
  qed
qed

text \<open>
  C8: without an \<open>[ atoms ]\<close> entry in the index the table is empty. With one, the table
  is the result of storing, in order, the lines of the topology text whose number is
  strictly between the atoms start line and the end line, blank lines and comment lines
  left out; the end line is the least indexed start line greater than the atoms start
  line, or the line after the last one when there is none. (An exception while storing
  gives the empty table.)
\<close>

theorem build_atom_table_span:
  "(map_of sl ''[ atoms ]'' = None \<longrightarrow> extract_atom_names ls sl = [])
   \<and> (\<forall>atoms_start. map_of sl ''[ atoms ]'' = Some atoms_start \<longrightarrow>
        extract_atom_names ls sl =
          (case store_rows
                  (filter is_data_line
                     (lines_between ls atoms_start (spec_atoms_end atoms_start sl (length ls)))) []
           of Inl e \<Rightarrow> [] | Inr t \<Rightarrow> t))"
  using extract_atom_names_span [of sl _ ls]
  by (simp add: extract_atom_names_def extract_atom_names_try_def)

theorem build_atom_table_span_witness:
  "map_of [(''[ atoms ]'', 2), (''[ bonds ]'', 7), (''[ angles ]'', 9::nat)] ''[ atoms ]'' = Some 2
   \<and> spec_atoms_end 2 [(''[ atoms ]'', 2), (''[ bonds ]'', 7), (''[ angles ]'', 9)] 9 = 7
   \<and> extract_atom_names
        [''; topology'', ''[ atoms ]'', ''; nr type resnr residue atom'', ''1 NH1 1 ALA N'', '''',
         ''2 CT1 1 ALA CA 2 0.07'', ''[ bonds ]'', ''1 2 1 0.1 1000'', ''[ angles ]'']
        [(''[ atoms ]'', 2), (''[ bonds ]'', 7), (''[ angles ]'', 9)]
      = [(1, \<lparr>name = ''N'', type = ''NH1'', resnr = ''1'', residue = ''ALA''\<rparr>),
         (2, \<lparr>name = ''CA'', type = ''CT1'', resnr = ''1'', residue = ''ALA''\<rparr>)]
   \<and> extract_atom_names [''[ bonds ]'', ''1 2 1''] [(''[ bonds ]'', 1)] = []"
proof -
  let ?sl = "[(''[ atoms ]'', 2), (''[ bonds ]'', 7), (''[ angles ]'', 9::nat)]"
  let ?ls = "[''; topology'', ''[ atoms ]'', ''; nr type resnr residue atom'', ''1 NH1 1 ALA N'', '''',
         ''2 CT1 1 ALA CA 2 0.07'', ''[ bonds ]'', ''1 2 1 0.1 1000'', ''[ angles ]'']"
  have m: "map_of ?sl ''[ atoms ]'' = Some 2"
    by simp
  have n: "map_of [(''[ bonds ]'', 1::nat)] ''[ atoms ]'' = None"
    by simp
  have e: "spec_atoms_end 2 ?sl 9 = 7"
    by code_simp
  have r: "(case store_rows (filter is_data_line
                (lines_between ?ls 2 (spec_atoms_end 2 ?sl (length ?ls)))) []
            of Inl e \<Rightarrow> [] | Inr t \<Rightarrow> t)
       = [(1, \<lparr>name = ''N'', type = ''NH1'', resnr = ''1'', residue = ''ALA''\<rparr>),
          (2, \<lparr>name = ''CA'', type = ''CT1'', resnr = ''1'', residue = ''ALA''\<rparr>)]"
    by code_simp
  from build_atom_table_span [of ?sl ?ls] m
  have 1: "extract_atom_names ?ls ?sl =
      (case store_rows (filter is_data_line
                (lines_between ?ls 2 (spec_atoms_end 2 ?sl (length ?ls)))) []
            of Inl e \<Rightarrow> [] | Inr t \<Rightarrow> t)"
    by blast
  from build_atom_table_span [of "[(''[ bonds ]'', 1)]" "[''[ bonds ]'', ''1 2 1'']"] n
  have 2: "extract_atom_names [''[ bonds ]'', ''1 2 1''] [(''[ bonds ]'', 1)] = []"
    by blast
  show ?thesis
    using m e 1 2 unfolding r by blast
qed

text \<open>
  C3, as the code has it: when a data line of the atoms span has at least five tokens and
  its first token is not an integer, the conversion raises, the handler of the function
  catches it, and the result is the empty table: the entries of the well-formed lines are
  lost with it. The call itself returns.
\<close>

theorem build_atom_table_malformed_index:
  assumes "map_of sl ''[ atoms ]'' = Some atoms_start"
    and "l \<in> set (lines_between ls atoms_start (spec_atoms_end atoms_start sl (length ls)))"
    and "is_data_line l"
    and "5 \<le> length (py_split (py_strip l))"
    and "py_int (py_split (py_strip l) ! 0) = None"
  shows "extract_atom_names ls sl = []"
proof -
  have "l \<in> set (filter is_data_line
      (lines_between ls atoms_start (spec_atoms_end atoms_start sl (length ls))))"
    using assms(2,3) by simp
  from store_rows_bad [OF this assms(4,5)] show ?thesis
    by (simp add: extract_atom_names_span [OF assms(1)])
qed

theorem build_atom_table_malformed_index_witness:
  "extract_atom_names [''[ atoms ]'', ''1 NH1 1 ALA N'', ''x CT1 1 ALA CA'', ''3 C 1 ALA C'']
      [(''[ atoms ]'', 1)] = []"
proof -
  have m: "map_of [(''[ atoms ]'', 1::nat)] ''[ atoms ]'' = Some 1" by simp
  have l: "''x CT1 1 ALA CA'' \<in> set (lines_between
       [''[ atoms ]'', ''1 NH1 1 ALA N'', ''x CT1 1 ALA CA'', ''3 C 1 ALA C''] 1
       (spec_atoms_end 1 [(''[ atoms ]'', 1)]
          (length [''[ atoms ]'', ''1 NH1 1 ALA N'', ''x CT1 1 ALA CA'', ''3 C 1 ALA C''])))"
    by code_simp
  have d: "is_data_line ''x CT1 1 ALA CA''" by code_simp
  have t: "5 \<le> length (py_split (py_strip ''x CT1 1 ALA CA''))" by code_simp
  have i: "py_int (py_split (py_strip ''x CT1 1 ALA CA'') ! 0) = None" by code_simp
  show ?thesis by (rule build_atom_table_malformed_index [OF m l d t i])
qed

text \<open>
  C3 as stated fails: the second atom line has a first token that is not an integer, and
  the result is the empty table, while the two well-formed lines alone give two entries.
\<close>

theorem build_atom_table_skip_counterexample:
  "extract_atom_names [''[ atoms ]'', ''1 NH1 1 ALA N'', ''x CT1 1 ALA CA'', ''3 C 1 ALA C'']
      (get_context_from_topology [''[ atoms ]'', ''1 NH1 1 ALA N'', ''x CT1 1 ALA CA'', ''3 C 1 ALA C'']) = []
   \<and> extract_atom_names [''[ atoms ]'', ''1 NH1 1 ALA N'', ''3 C 1 ALA C'']
      (get_context_from_topology [''[ atoms ]'', ''1 NH1 1 ALA N'', ''3 C 1 ALA C''])
     = [(1, \<lparr>name = ''N'', type = ''NH1'', resnr = ''1'', residue = ''ALA''\<rparr>),
        (3, \<lparr>name = ''C'', type = ''C'', resnr = ''1'', residue = ''ALA''\<rparr>)]"
  by code_simp

section \<open>Properties of process_errors_for_dummies\<close>

lemma generate_angle_dummy_Some: "length ats = 3 \<Longrightarrow> \<exists>row. generate_angle_dummy ats = Some row \<and> row \<noteq> []"
  by (simp add: generate_angle_dummy_def)

lemma generate_dihedral_dummy_Some: "length ats = 4 \<Longrightarrow> \<exists>row. generate_dihedral_dummy ats = Some row \<and> row \<noteq> []"
  by (simp add: generate_dihedral_dummy_def)

lemma section_names_lower: "s \<in> set section_names \<Longrightarrow> py_lower s = s \<and> s \<noteq> []"
  by (auto simp add: section_names_def py_lower_def lower_char_def)

lemma section_has_resolved:
  assumes "sec = None \<or> (\<exists>s \<in> set section_names. sec = Some s)" "w \<noteq> []"
  shows "section_has w sec = py_in w (case sec of None \<Rightarrow> [] | Some s \<Rightarrow> s)"
proof (cases sec)
  case None
  with assms(2) show ?thesis by (cases w) (simp_all add: section_has_def)
next
  case (Some s)
  with assms have "s \<in> set section_names" by auto
  from section_names_lower [OF this] Some show ?thesis by (simp add: section_has_def)
qed

lemma process_error_classified:
  assumes "atom_types e = Some ats" and "ats \<noteq> []"
    and "err_section e = None \<or> (\<exists>s \<in> set section_names. err_section e = Some s)"
  shows "case spec_classify (error_msg e) (err_section e) of
           AngleKind \<Rightarrow>
             if length ats = 3 then
               \<exists>row. generate_angle_dummy ats = Some row
                 \<and> process_error st e =
                     st\<lparr>angle_dummies := insert row (angle_dummies st),
                        processed_errors := processed_errors st + 1\<rparr>
             else process_error st e
                    = st\<lparr>skipped_wrong_atom_count := skipped_wrong_atom_count st + 1\<rparr>
         | DihedralKind \<Rightarrow>
             if length ats = 4 then
               \<exists>row. generate_dihedral_dummy ats = Some row
                 \<and> process_error st e =
                     st\<lparr>dihedral_dummies := insert row (dihedral_dummies st),
                        processed_errors := processed_errors st + 1\<rparr>
             else process_error st e
                    = st\<lparr>skipped_wrong_atom_count := skipped_wrong_atom_count st + 1\<rparr>
         | UnrecognizedKind \<Rightarrow>
             process_error st e = st\<lparr>skipped_unknown_error := skipped_unknown_error st + 1\<rparr>"
proof -
  have a: "section_has ''angle'' (err_section e)
      = py_in ''angle'' (case err_section e of None \<Rightarrow> [] | Some s \<Rightarrow> s)"
    by (rule section_has_resolved [OF assms(3)]) simp
  have d: "section_has ''dihedral'' (err_section e)
      = py_in ''dihedral'' (case err_section e of None \<Rightarrow> [] | Some s \<Rightarrow> s)"
    by (rule section_has_resolved [OF assms(3)]) simp
  consider (angle) "spec_classify (error_msg e) (err_section e) = AngleKind"
    | (dihedral) "spec_classify (error_msg e) (err_section e) = DihedralKind"
    | (unknown) "spec_classify (error_msg e) (err_section e) = UnrecognizedKind"
    by (cases "spec_classify (error_msg e) (err_section e)") auto
  then show ?thesis
  proof cases
    case angle
    then have c: "py_in ''no default u-b types'' (py_lower (error_msg e))
        \<or> py_in ''angle type'' (py_lower (error_msg e)) \<or> section_has ''angle'' (err_section e)"
      unfolding a by (simp add: spec_classify_def Let_def split: if_splits)
    show ?thesis
    proof (cases "length ats = 3")
      case True
      from generate_angle_dummy_Some [OF True] obtain row where
        "generate_angle_dummy ats = Some row" "row \<noteq> []" by blast
      with True c assms(1,2) angle show ?thesis
        by (simp add: process_error_def Let_def)
    next
      case False
      with c assms(1,2) angle show ?thesis
        by (simp add: process_error_def Let_def wrong_atom_count_def)
    qed
  next
    case dihedral
    then have c: "\<not> (py_in ''no default u-b types'' (py_lower (error_msg e))
        \<or> py_in ''angle type'' (py_lower (error_msg e)) \<or> section_has ''angle'' (err_section e))"
      "py_in ''no default dihedral type'' (py_lower (error_msg e))
        \<or> py_in ''dihedral type'' (py_lower (error_msg e)) \<or> section_has ''dihedral'' (err_section e)"
      unfolding a d by (simp_all add: spec_classify_def Let_def split: if_splits)
    show ?thesis
    proof (cases "length ats = 4")
      case True
      from generate_dihedral_dummy_Some [OF True] obtain row where
        "generate_dihedral_dummy ats = Some row" "row \<noteq> []" by blast
      with True c assms(1,2) dihedral show ?thesis
        by (simp add: process_error_def Let_def)
    next
      case False
      with c assms(1,2) dihedral show ?thesis
        by (simp add: process_error_def Let_def wrong_atom_count_def)
    qed
  next
    case unknown
    then have c: "\<not> (py_in ''no default u-b types'' (py_lower (error_msg e))
        \<or> py_in ''angle type'' (py_lower (error_msg e)) \<or> section_has ''angle'' (err_section e))"
      "\<not> (py_in ''no default dihedral type'' (py_lower (error_msg e))
        \<or> py_in ''dihedral type'' (py_lower (error_msg e)) \<or> section_has ''dihedral'' (err_section e))"
      unfolding a d by (simp_all add: spec_classify_def Let_def split: if_splits)
    with assms(1,2) unknown show ?thesis
      by (simp add: process_error_def Let_def)
  qed
qed

lemma process_error_outcome:
  assumes "err_section e = None \<or> (\<exists>s \<in> set section_names. err_section e = Some s)"
  shows "process_error st e =
     (case spec_outcome e of
        NoAtomTypes \<Rightarrow> st\<lparr>skipped_no_atom_types := skipped_no_atom_types st + 1\<rparr>
      | AngleRow row \<Rightarrow>
          st\<lparr>angle_dummies := insert row (angle_dummies st),
             processed_errors := processed_errors st + 1\<rparr>
      | DihedralRow row \<Rightarrow>
          st\<lparr>dihedral_dummies := insert row (dihedral_dummies st),
             processed_errors := processed_errors st + 1\<rparr>
      | WrongArity \<Rightarrow> st\<lparr>skipped_wrong_atom_count := skipped_wrong_atom_count st + 1\<rparr>
      | Unrecognized \<Rightarrow> st\<lparr>skipped_unknown_error := skipped_unknown_error st + 1\<rparr>)"
proof (cases "atom_types e")
  case None
  then show ?thesis by (simp add: process_error_def spec_outcome_def)
next
  case (Some ats)
  show ?thesis
  proof (cases "ats = []")
    case True
    with Some show ?thesis by (simp add: process_error_def spec_outcome_def)
  next
    case False
    from process_error_classified [OF Some False assms, of st] Some False
    show ?thesis
      by (cases "spec_classify (error_msg e) (err_section e)")
        (auto simp add: spec_outcome_def split: if_splits)
  qed
qed

lemma foldl_outcomes:
  assumes "\<forall>e \<in> set errs. err_section e = None \<or> (\<exists>s \<in> set section_names. err_section e = Some s)"
  shows "angle_dummies (foldl process_error st errs)
       = angle_dummies st \<union> {row. \<exists>e \<in> set errs. spec_outcome e = AngleRow row}
     \<and> dihedral_dummies (foldl process_error st errs)
       = dihedral_dummies st \<union> {row. \<exists>e \<in> set errs. spec_outcome e = DihedralRow row}
     \<and> processed_errors (foldl process_error st errs)
       = processed_errors st + length (filter (\<lambda>e. gives_row (spec_outcome e)) errs)
     \<and> skipped_no_atom_types (foldl process_error st errs)
       = skipped_no_atom_types st + length (filter (\<lambda>e. spec_outcome e = NoAtomTypes) errs)
     \<and> skipped_unknown_error (foldl process_error st errs)
       = skipped_unknown_error st + length (filter (\<lambda>e. spec_outcome e = Unrecognized) errs)
     \<and> skipped_wrong_atom_count (foldl process_error st errs)
       = skipped_wrong_atom_count st + length (filter (\<lambda>e. spec_outcome e = WrongArity) errs)"
  using assms
proof (induction errs arbitrary: st)
  case Nil
  show ?case by simp
next
  case (Cons e errs)
  from Cons.prems have e: "err_section e = None \<or> (\<exists>s \<in> set section_names. err_section e = Some s)"
    and rest: "\<forall>e \<in> set errs. err_section e = None \<or> (\<exists>s \<in> set section_names. err_section e = Some s)"
    by simp_all
  note ih = Cons.IH [OF rest, of "process_error st e"]
  show ?case
  proof (cases "spec_outcome e")
    case NoAtomTypes
    with ih show ?thesis
      by (simp add: process_error_outcome [OF e] gives_row_def)
  next
    case (AngleRow row)
    with ih show ?thesis
      by (simp add: process_error_outcome [OF e] gives_row_def) blast
  next
    case (DihedralRow row)
    with ih show ?thesis
      by (simp add: process_error_outcome [OF e] gives_row_def) blast
  next
    case WrongArity
    with ih show ?thesis
      by (simp add: process_error_outcome [OF e] gives_row_def)
  next
    case Unrecognized
    with ih show ?thesis
      by (simp add: process_error_outcome [OF e] gives_row_def)
  qed
qed

text \<open>
  C6: over a sequence of records whose section (if any) is one the correlator resolves,
  the synthesizer treats every record by the priority list: a record with atom types is
  an angle when its lowercased message or its section says so, else a dihedral when
  they say so, else it is counted as unrecognised; an angle with other than three types,
  or a dihedral with other than four, is counted as a wrong-arity skip and gives no row.
  The returned lists hold exactly the rows of the records that match, sorted, and the
  four counters count the records of each outcome.
\<close>

theorem synthesize_classification:
  assumes "\<forall>e \<in> set errs. err_section e = None \<or> (\<exists>s \<in> set section_names. err_section e = Some s)"
  shows "angles (process_errors_for_dummies errs)
       = sorted_list_of_set {row. \<exists>e \<in> set errs. spec_outcome e = AngleRow row}
     \<and> dihedrals (process_errors_for_dummies errs)
       = sorted_list_of_set {row. \<exists>e \<in> set errs. spec_outcome e = DihedralRow row}
     \<and> processed_errors (process_errors_loop errs)
       = length (filter (\<lambda>e. gives_row (spec_outcome e)) errs)
     \<and> skipped_no_atom_types (process_errors_loop errs)
       = length (filter (\<lambda>e. spec_outcome e = NoAtomTypes) errs)
     \<and> skipped_unknown_error (process_errors_loop errs)
       = length (filter (\<lambda>e. spec_outcome e = Unrecognized) errs)
     \<and> skipped_wrong_atom_count (process_errors_loop errs)
       = length (filter (\<lambda>e. spec_outcome e = WrongArity) errs)"
  using foldl_outcomes [OF assms, of dummy_init]
  by (simp add: process_errors_for_dummies_def process_errors_loop_def Let_def)
    (simp add: dummy_init_def)

theorem synthesize_classification_witness:
  "angles (process_errors_for_dummies
      [ex_enriched 40 ''No default U-B types'' ''[ proper dihedrals ]'' [1, 2, 3, 4]
         [''CT1'', ''CT2'', ''CT3'', ''OH1''],
       ex_enriched 12 ''No default U-B types'' ''[ angles ]'' [5, 7, 9] [''CA'', ''CB'', ''CC''],
       ex_enriched 31 ''No default Proper Dih. types'' ''[ proper dihedrals ]'' [1, 2, 3, 4]
         [''CT1'', ''CT2'', ''CT3'', ''OH1''],
       ex_enriched 8 ''No default Bond type'' ''[ bonds ]'' [5, 7] [''CA'', ''CB''],
       ex_error 99 ''No default Angle type''])
     = [''      CA       CB       CC     1   120.000000   200.000000   0.00000000         0.00 ;'']
   \<and> dihedrals (process_errors_for_dummies
      [ex_enriched 40 ''No default U-B types'' ''[ proper dihedrals ]'' [1, 2, 3, 4]
         [''CT1'', ''CT2'', ''CT3'', ''OH1''],
       ex_enriched 12 ''No default U-B types'' ''[ angles ]'' [5, 7, 9] [''CA'', ''CB'', ''CC''],
       ex_enriched 31 ''No default Proper Dih. types'' ''[ proper dihedrals ]'' [1, 2, 3, 4]
         [''CT1'', ''CT2'', ''CT3'', ''OH1''],
       ex_enriched 8 ''No default Bond type'' ''[ bonds ]'' [5, 7] [''CA'', ''CB''],
       ex_error 99 ''No default Angle type''])
     = [''     CT1      CT2      CT3      OH1'' @ [CHR 0x09, CHR 0x09] @ ''9       0.000000       0.000000     1 ;'']
   \<and> processed_errors (process_errors_loop
      [ex_enriched 40 ''No default U-B types'' ''[ proper dihedrals ]'' [1, 2, 3, 4]
         [''CT1'', ''CT2'', ''CT3'', ''OH1''],
       ex_enriched 12 ''No default U-B types'' ''[ angles ]'' [5, 7, 9] [''CA'', ''CB'', ''CC''],
       ex_enriched 31 ''No default Proper Dih. types'' ''[ proper dihedrals ]'' [1, 2, 3, 4]
         [''CT1'', ''CT2'', ''CT3'', ''OH1''],
       ex_enriched 8 ''No default Bond type'' ''[ bonds ]'' [5, 7] [''CA'', ''CB''],
       ex_error 99 ''No default Angle type''])
     = 2
   \<and> skipped_wrong_atom_count (process_errors_loop
      [ex_enriched 40 ''No default U-B types'' ''[ proper dihedrals ]'' [1, 2, 3, 4]
         [''CT1'', ''CT2'', ''CT3'', ''OH1''],
       ex_enriched 12 ''No default U-B types'' ''[ angles ]'' [5, 7, 9] [''CA'', ''CB'', ''CC''],
       ex_enriched 31 ''No default Proper Dih. types'' ''[ proper dihedrals ]'' [1, 2, 3, 4]
         [''CT1'', ''CT2'', ''CT3'', ''OH1''],
       ex_enriched 8 ''No default Bond type'' ''[ bonds ]'' [5, 7] [''CA'', ''CB''],
       ex_error 99 ''No default Angle type''])
     = 1
   \<and> skipped_unknown_error (process_errors_loop
      [ex_enriched 40 ''No default U-B types'' ''[ proper dihedrals ]'' [1, 2, 3, 4]
         [''CT1'', ''CT2'', ''CT3'', ''OH1''],
       ex_enriched 12 ''No default U-B types'' ''[ angles ]'' [5, 7, 9] [''CA'', ''CB'', ''CC''],
       ex_enriched 31 ''No default Proper Dih. types'' ''[ proper dihedrals ]'' [1, 2, 3, 4]
         [''CT1'', ''CT2'', ''CT3'', ''OH1''],
       ex_enriched 8 ''No default Bond type'' ''[ bonds ]'' [5, 7] [''CA'', ''CB''],
       ex_error 99 ''No default Angle type''])
     = 1
   \<and> skipped_no_atom_types (process_errors_loop
      [ex_enriched 40 ''No default U-B types'' ''[ proper dihedrals ]'' [1, 2, 3, 4]
         [''CT1'', ''CT2'', ''CT3'', ''OH1''],
       ex_enriched 12 ''No default U-B types'' ''[ angles ]'' [5, 7, 9] [''CA'', ''CB'', ''CC''],
       ex_enriched 31 ''No default Proper Dih. types'' ''[ proper dihedrals ]'' [1, 2, 3, 4]
         [''CT1'', ''CT2'', ''CT3'', ''OH1''],
       ex_enriched 8 ''No default Bond type'' ''[ bonds ]'' [5, 7] [''CA'', ''CB''],
       ex_error 99 ''No default Angle type''])
     = 1"
proof -
  let ?w = "ex_enriched 40 ''No default U-B types'' ''[ proper dihedrals ]'' [1, 2, 3, 4]
         [''CT1'', ''CT2'', ''CT3'', ''OH1'']"
  let ?a = "ex_enriched 12 ''No default U-B types'' ''[ angles ]'' [5, 7, 9] [''CA'', ''CB'', ''CC'']"
  let ?d = "ex_enriched 31 ''No default Proper Dih. types'' ''[ proper dihedrals ]'' [1, 2, 3, 4]
         [''CT1'', ''CT2'', ''CT3'', ''OH1'']"
  let ?u = "ex_enriched 8 ''No default Bond type'' ''[ bonds ]'' [5, 7] [''CA'', ''CB'']"
  let ?n = "ex_error 99 ''No default Angle type''"
  have out: "spec_outcome ?w = WrongArity"
    "spec_outcome ?a = AngleRow
       ''      CA       CB       CC     1   120.000000   200.000000   0.00000000         0.00 ;''"
    "spec_outcome ?d = DihedralRow
       (''     CT1      CT2      CT3      OH1'' @ [CHR 0x09, CHR 0x09] @ ''9       0.000000       0.000000     1 ;'')"
    "spec_outcome ?u = Unrecognized"
    "spec_outcome ?n = NoAtomTypes"
    by code_simp+
  have res: "\<forall>e \<in> set [?w, ?a, ?d, ?u, ?n].
      err_section e = None \<or> (\<exists>s \<in> set section_names. err_section e = Some s)"
    by (simp add: ex_enriched_def ex_error_def section_names_def)
  from synthesize_classification [OF res] show ?thesis
    by (simp add: out gives_row_def)
qed

lemma process_error_angle_dummies:
  "angle_dummies (process_error st e) = angle_dummies st \<union> angle_dummies (process_error dummy_init e)"
  by (simp add: process_error_def dummy_init_def wrong_atom_count_def Let_def split: option.splits)

lemma process_error_dihedral_dummies:
  "dihedral_dummies (process_error st e) =
     dihedral_dummies st \<union> dihedral_dummies (process_error dummy_init e)"
  by (simp add: process_error_def dummy_init_def wrong_atom_count_def Let_def split: option.splits)

lemma finite_process_error:
  "finite (angle_dummies (process_error dummy_init e))"
  "finite (dihedral_dummies (process_error dummy_init e))"
  by (simp_all add: process_error_def dummy_init_def wrong_atom_count_def Let_def split: option.splits)

lemma foldl_angle_dummies:
  "angle_dummies (foldl process_error st es) =
     angle_dummies st \<union> (\<Union>e \<in> set es. angle_dummies (process_error dummy_init e))"
proof (induction es arbitrary: st)
  case Nil
  show ?case by simp
next
  case (Cons e es)
  show ?case
    unfolding foldl_Cons Cons.IH process_error_angle_dummies [of st e] by auto
qed

lemma foldl_dihedral_dummies:
  "dihedral_dummies (foldl process_error st es) =
     dihedral_dummies st \<union> (\<Union>e \<in> set es. dihedral_dummies (process_error dummy_init e))"
proof (induction es arbitrary: st)
  case Nil
  show ?case by simp
next
  case (Cons e es)
  show ?case
    unfolding foldl_Cons Cons.IH process_error_dihedral_dummies [of st e] by auto
qed

lemma loop_angle_dummies:
  "angle_dummies (process_errors_loop es) = (\<Union>e \<in> set es. angle_dummies (process_error dummy_init e))"
  by (simp add: process_errors_loop_def foldl_angle_dummies) (simp add: dummy_init_def)

lemma loop_dihedral_dummies:
  "dihedral_dummies (process_errors_loop es) =
     (\<Union>e \<in> set es. dihedral_dummies (process_error dummy_init e))"
  by (simp add: process_errors_loop_def foldl_dihedral_dummies) (simp add: dummy_init_def)

lemma finite_loop:
  "finite (angle_dummies (process_errors_loop es))"
  "finite (dihedral_dummies (process_errors_loop es))"
  by (simp_all add: loop_angle_dummies loop_dihedral_dummies finite_process_error)

text \<open>
  C9: the output is a function of the error sequence alone (the loop reads the records
  and changes none), so two runs on the same sequence give the same lists. Each list is
  sorted in the lexicographic order of strings and has no duplicate, and it holds exactly
  the rows generated for the records; so two sequences that generate the same rows, in
  any order and any number of times, give the same output, and so do two sequences that
  are permutations of each other.
\<close>

theorem synthesize_sorted_dedup:
  "sorted (angles (process_errors_for_dummies errs))
   \<and> distinct (angles (process_errors_for_dummies errs))
   \<and> set (angles (process_errors_for_dummies errs))
       = (\<Union>e \<in> set errs. angle_dummies (process_error dummy_init e))
   \<and> sorted (dihedrals (process_errors_for_dummies errs))
   \<and> distinct (dihedrals (process_errors_for_dummies errs))
   \<and> set (dihedrals (process_errors_for_dummies errs))
       = (\<Union>e \<in> set errs. dihedral_dummies (process_error dummy_init e))
   \<and> ((\<Union>e \<in> set errs'. angle_dummies (process_error dummy_init e))
         = (\<Union>e \<in> set errs. angle_dummies (process_error dummy_init e))
       \<and> (\<Union>e \<in> set errs'. dihedral_dummies (process_error dummy_init e))
         = (\<Union>e \<in> set errs. dihedral_dummies (process_error dummy_init e))
       \<longrightarrow> process_errors_for_dummies errs' = process_errors_for_dummies errs)
   \<and> (mset errs' = mset errs
       \<longrightarrow> process_errors_for_dummies errs' = process_errors_for_dummies errs)"
proof -
  have same: "process_errors_for_dummies xs = process_errors_for_dummies ys"
    if "(\<Union>e \<in> set xs. angle_dummies (process_error dummy_init e))
         = (\<Union>e \<in> set ys. angle_dummies (process_error dummy_init e))"
      and "(\<Union>e \<in> set xs. dihedral_dummies (process_error dummy_init e))
         = (\<Union>e \<in> set ys. dihedral_dummies (process_error dummy_init e))"
    for xs ys
    using that
    by (simp add: process_errors_for_dummies_def Let_def loop_angle_dummies loop_dihedral_dummies)
  have perm: "process_errors_for_dummies errs' = process_errors_for_dummies errs"
    if "mset errs' = mset errs"
  proof -
    from that have "set errs' = set errs" by (rule mset_eq_setD)
    then show ?thesis by (intro same) simp_all
  qed
  show ?thesis
    using same [of errs' errs] perm
    by (simp add: process_errors_for_dummies_def Let_def finite_loop
        loop_angle_dummies [symmetric] loop_dihedral_dummies [symmetric])
qed

theorem synthesize_sorted_dedup_witness:
  "process_errors_for_dummies
     [ex_enriched 31 ''No default Proper Dih. types'' ''[ proper dihedrals ]'' [1, 2, 3, 4]
        [''CT1'', ''CT2'', ''CT3'', ''OH1''],
      ex_enriched 12 ''No default U-B types'' ''[ angles ]'' [5, 7, 9] [''CA'', ''CB'', ''CC''],
      ex_enriched 14 ''No default Angle types'' ''[ angles ]'' [6, 8, 10] [''CA'', ''CB'', ''CC'']]
   = process_errors_for_dummies
     [ex_enriched 12 ''No default U-B types'' ''[ angles ]'' [5, 7, 9] [''CA'', ''CB'', ''CC''],
      ex_enriched 31 ''No default Proper Dih. types'' ''[ proper dihedrals ]'' [1, 2, 3, 4]
        [''CT1'', ''CT2'', ''CT3'', ''OH1'']]
   \<and> process_errors_for_dummies
     [ex_enriched 31 ''No default Proper Dih. types'' ''[ proper dihedrals ]'' [1, 2, 3, 4]
        [''CT1'', ''CT2'', ''CT3'', ''OH1''],
      ex_enriched 12 ''No default U-B types'' ''[ angles ]'' [5, 7, 9] [''CA'', ''CB'', ''CC'']]
   = process_errors_for_dummies
     [ex_enriched 12 ''No default U-B types'' ''[ angles ]'' [5, 7, 9] [''CA'', ''CB'', ''CC''],
      ex_enriched 31 ''No default Proper Dih. types'' ''[ proper dihedrals ]'' [1, 2, 3, 4]
        [''CT1'', ''CT2'', ''CT3'', ''OH1'']]"
proof -
  let ?d = "ex_enriched 31 ''No default Proper Dih. types'' ''[ proper dihedrals ]'' [1, 2, 3, 4]
        [''CT1'', ''CT2'', ''CT3'', ''OH1'']"
  let ?a = "ex_enriched 12 ''No default U-B types'' ''[ angles ]'' [5, 7, 9] [''CA'', ''CB'', ''CC'']"
  let ?b = "ex_enriched 14 ''No default Angle types'' ''[ angles ]'' [6, 8, 10] [''CA'', ''CB'', ''CC'']"
  have ab: "angle_dummies (process_error dummy_init ?b) = angle_dummies (process_error dummy_init ?a)"
    "dihedral_dummies (process_error dummy_init ?b) = dihedral_dummies (process_error dummy_init ?a)"
    by code_simp+
  have rows: "(\<Union>e \<in> set [?d, ?a, ?b]. angle_dummies (process_error dummy_init e))
         = (\<Union>e \<in> set [?a, ?d]. angle_dummies (process_error dummy_init e))"
    "(\<Union>e \<in> set [?d, ?a, ?b]. dihedral_dummies (process_error dummy_init e))
         = (\<Union>e \<in> set [?a, ?d]. dihedral_dummies (process_error dummy_init e))"
    by (auto simp add: ab)
  have perm: "mset [?d, ?a] = mset [?a, ?d]"
    by (simp add: add.commute)
  from synthesize_sorted_dedup [of "[?a, ?d]" "[?d, ?a, ?b]"] rows
  have 1: "process_errors_for_dummies [?d, ?a, ?b] = process_errors_for_dummies [?a, ?d]"
    by blast
  from synthesize_sorted_dedup [of "[?a, ?d]" "[?d, ?a]"] perm
  have 2: "process_errors_for_dummies [?d, ?a] = process_errors_for_dummies [?a, ?d]"
    by blast
  from 1 2 show ?thesis by blast
qed

section \<open>The end-to-end angle scenario\<close>

lemma find_section_unique:
  assumes "(sec, st0) \<in> set sl" and "st0 \<le> el"
    and "\<forall>(s, st) \<in> set sl. st0 \<le> st \<and> st \<le> el \<longrightarrow> s = sec"
  shows "find_section sl el sl = Some sec"
proof -
  have "find_section sl el sl \<noteq> None"
    unfolding find_section_None_iff_all_later using assms(1,2) by force
  then obtain s where s: "find_section sl el sl = Some s" by blast
  from find_section_SomeD [OF s] obtain st where
    st: "(s, st) \<in> set sl" "st \<le> el" "is_last_section sl el st"
    by blast
  from st(3) assms(1,2) have "st0 \<le> st"
    unfolding is_last_section_iff by blast
  with assms(3) st(1,2) have "s = sec" by blast
  with s show ?thesis by simp
qed

text \<open>
  C5, as the code has it: with \<open>[ angles ]\<close> indexed at line 10 and no other section
  starting on lines 10 to 12, an error at line 12 whose line reads \<open>5  7  9  3\<close>, and an
  atom table giving atoms 5, 7 and 9 the types CA, CB and CC, the record gets the section
  \<open>[ angles ]\<close> and the types CA, CB, CC, and the synthesizer returns one angle row; in
  that row the last number is right-justified in ten columns after three spaces, so nine
  spaces stand between \<open>0.00000000\<close> and \<open>0.00\<close>.
\<close>

theorem angle_scenario:
  assumes "(''[ angles ]'', 10) \<in> set sl"
    and "\<forall>(s, st) \<in> set sl. 10 \<le> st \<and> st \<le> 12 \<longrightarrow> s = ''[ angles ]''"
    and "line_number e = 12" and "12 \<le> length ls"
    and "py_strip (ls ! 11) = ''5  7  9  3''"
    and "map_option type (map_of ai 5) = Some ''CA''"
    and "map_option type (map_of ai 7) = Some ''CB''"
    and "map_option type (map_of ai 9) = Some ''CC''"
  shows "err_section (enrich sl ls ai e) = Some ''[ angles ]''
     \<and> atoms (enrich sl ls ai e) = Some [5, 7, 9]
     \<and> atom_types (enrich sl ls ai e) = Some [''CA'', ''CB'', ''CC'']
     \<and> process_errors_for_dummies [enrich sl ls ai e]
        = \<lparr>angles = [''      CA       CB       CC     1   120.000000   200.000000   0.00000000         0.00 ;''],
           dihedrals = []\<rparr>"
proof -
  have fs: "find_section sl (line_number e) sl = Some ''[ angles ]''"
    unfolding assms(3) by (rule find_section_unique [OF assms(1) _ assms(2)]) simp
  have line: "map_of (enumerate 1 ls) (line_number e) = Some (ls ! 11)"
    using assms(4) by (simp add: map_of_enumerate assms(3))
  have toks: "extract_atoms ''[ angles ]'' (py_split ''5  7  9  3'') = Inr [5, 7, 9]"
    by code_simp
  have ne: "ai \<noteq> []" using assms(6) by auto
  have types: "map (atom_type_of ai) [5, 7, 9] = [''CA'', ''CB'', ''CC'']"
    using assms(6,7,8) by (auto simp add: atom_type_of_def)
  have id: "identify_atoms_from_context e sl ls (Some ai) =
      (e\<lparr>err_section := Some ''[ angles ]''\<rparr>,
       ([5, 7, 9], map (atom_name_of ai) [5, 7, 9], map (residue_info_of ai) [5, 7, 9],
        [''CA'', ''CB'', ''CC'']))"
    unfolding identify_atoms_from_context_def Let_def fs line
    by (simp add: assms(5) toks resolve_atoms_def ne types [simplified])
  have en: "enrich sl ls ai e = e\<lparr>err_section := Some ''[ angles ]'', atoms := Some [5, 7, 9],
      atom_names := Some (map (atom_name_of ai) [5, 7, 9]),
      residues := Some (map (residue_info_of ai) [5, 7, 9]),
      atom_types := Some [''CA'', ''CB'', ''CC'']\<rparr>"
    by (simp add: enrich_def id)
  have sec: "section_has ''angle'' (Some ''[ angles ]'')" by code_simp
  have row: "generate_angle_dummy [''CA'', ''CB'', ''CC''] =
      Some ''      CA       CB       CC     1   120.000000   200.000000   0.00000000         0.00 ;''"
    by code_simp
  have "process_error dummy_init (enrich sl ls ai e) =
      dummy_init\<lparr>angle_dummies := {''      CA       CB       CC     1   120.000000   200.000000   0.00000000         0.00 ;''},
        processed_errors := 1\<rparr>"
    unfolding en by (simp add: process_error_def Let_def sec row) (simp add: dummy_init_def)
  then have "process_errors_for_dummies [enrich sl ls ai e]
        = \<lparr>angles = [''      CA       CB       CC     1   120.000000   200.000000   0.00000000         0.00 ;''],
           dihedrals = []\<rparr>"
    by (simp add: process_errors_for_dummies_def process_errors_loop_def Let_def)
      (simp add: dummy_init_def)
  with en show ?thesis by simp
qed

theorem angle_scenario_witness:
  "get_context_from_topology ex_topology = [(''[ atoms ]'', 1), (''[ bonds ]'', 7), (''[ angles ]'', 10)]
   \<and> process_errors_for_dummies
        [enrich (get_context_from_topology ex_topology) ex_topology
           (extract_atom_names ex_topology (get_context_from_topology ex_topology))
           (ex_error 12 ''No default U-B types'')]
      = \<lparr>angles = [''      CA       CB       CC     1   120.000000   200.000000   0.00000000         0.00 ;''],
         dihedrals = []\<rparr>"
proof -
  have sl: "get_context_from_topology ex_topology
      = [(''[ atoms ]'', 1), (''[ bonds ]'', 7), (''[ angles ]'', 10)]"
    by code_simp
  have ai: "extract_atom_names ex_topology [(''[ atoms ]'', 1), (''[ bonds ]'', 7), (''[ angles ]'', 10)]
      = [(5, \<lparr>name = ''N'', type = ''CA'', resnr = ''1'', residue = ''ALA''\<rparr>),
         (7, \<lparr>name = ''CA'', type = ''CB'', resnr = ''1'', residue = ''ALA''\<rparr>),
         (9, \<lparr>name = ''C'', type = ''CC'', resnr = ''1'', residue = ''ALA''\<rparr>)]"
    by code_simp
  have h1: "(''[ angles ]'', 10) \<in> set (get_context_from_topology ex_topology)"
    and h2: "\<forall>(s, st) \<in> set (get_context_from_topology ex_topology).
               10 \<le> st \<and> st \<le> 12 \<longrightarrow> s = ''[ angles ]''"
    unfolding sl by simp_all
  have h3: "line_number (ex_error 12 ''No default U-B types'') = 12"
    by (simp add: ex_error_def)
  have h4: "12 \<le> length ex_topology" by (simp add: ex_topology_def)
  have h5: "py_strip (ex_topology ! 11) = ''5  7  9  3''" by code_simp
  have h6: "map_option type (map_of (extract_atom_names ex_topology (get_context_from_topology ex_topology)) 5) = Some ''CA''"
    and h7: "map_option type (map_of (extract_atom_names ex_topology (get_context_from_topology ex_topology)) 7) = Some ''CB''"
    and h8: "map_option type (map_of (extract_atom_names ex_topology (get_context_from_topology ex_topology)) 9) = Some ''CC''"
    unfolding sl ai by simp_all
  from angle_scenario [OF h1 h2 h3 h4 h5 h6 h7 h8] sl show ?thesis by blast
qed

text \<open>
  C5 as stated fails on the last field: for the scenario's topology and error, the
  synthesizer's angle list is not the row of 84 characters that the claim quotes (seven
  spaces before \<open>0.00\<close>).
\<close>

theorem angle_scenario_row_counterexample:
  "angles (process_errors_for_dummies
        [enrich (get_context_from_topology ex_topology) ex_topology
           (extract_atom_names ex_topology (get_context_from_topology ex_topology))
           (ex_error 12 ''No default U-B types'')])
     \<noteq> [''      CA       CB       CC     1   120.000000   200.000000   0.00000000       0.00 ;'']
   \<and> generate_angle_dummy [''CA'', ''CB'', ''CC'']
     \<noteq> Some ''      CA       CB       CC     1   120.000000   200.000000   0.00000000       0.00 ;''"
  by code_simp

end
